theory Spec2Isabelle
  imports Main
begin

section \<open>The ngtsc translator: IR to TypeScript syntax trees\<close>

text \<open>
  A shallow embedding of \<^verbatim>\<open>packages/compiler-cli/src/ngtsc/translator/src/translator.ts\<close>:
  the \<^verbatim>\<open>Context\<close> flag, the \<^verbatim>\<open>ImportManager\<close>, the
  \<^verbatim>\<open>ExpressionTranslatorVisitor\<close> and the shared helper for localized strings.
  Mutable objects become explicit state, a thrown error becomes a value, and the
  TypeScript node factory (\<^verbatim>\<open>ts.createXxx\<close>) becomes the constructors of a datatype
  of output nodes. The \<^verbatim>\<open>TypeTranslatorVisitor\<close> is left out: no statement below is
  about it.
\<close>

subsection \<open>Context\<close>

text \<open>
  \<^verbatim>\<open>class Context { constructor(readonly isStatement: boolean) {} ... }\<close>
  The two getters return \<^verbatim>\<open>this\<close> when the mode is already the wanted one and a
  new object otherwise; a Context is only ever read through its flag.
\<close>

datatype Context = Context (isStatement: bool)

definition withExpressionMode :: "Context \<Rightarrow> Context" where
  "withExpressionMode c = (if isStatement c then Context False else c)"

definition withStatementMode :: "Context \<Rightarrow> Context" where
  "withStatementMode c = (if \<not> isStatement c then Context True else c)"

subsection \<open>JavaScript maps and number formatting\<close>

text \<open>
  A JavaScript \<^verbatim>\<open>Map\<close> iterates in insertion order, so it is an association list
  whose keys are distinct: \<^verbatim>\<open>set\<close> on a new key appends, \<^verbatim>\<open>set\<close> on an old key
  replaces the value where it stands.
\<close>

type_synonym ('k, 'v) jsmap = "('k \<times> 'v) list"

definition jsmap_has :: "('k, 'v) jsmap \<Rightarrow> 'k \<Rightarrow> bool" where
  "jsmap_has m k = (k \<in> set (map fst m))"

definition jsmap_get :: "('k, 'v) jsmap \<Rightarrow> 'k \<Rightarrow> 'v option" where
  "jsmap_get m k = map_of m k"

definition jsmap_set :: "('k, 'v) jsmap \<Rightarrow> 'k \<Rightarrow> 'v \<Rightarrow> ('k, 'v) jsmap" where
  "jsmap_set m k v =
     (if jsmap_has m k then map (\<lambda>(k', v'). if k' = k then (k', v) else (k', v')) m
      else m @ [(k, v)])"

text \<open>
  The template string \<^verbatim>\<open>`${this.prefix}${this.nextIndex++}`\<close> prints the counter in
  decimal. The counter is a natural number here: a JavaScript number counts exactly up to
  \<open>2^53\<close>, far more entries than a \<^verbatim>\<open>Map\<close> can hold.
\<close>

definition digitChar :: "nat \<Rightarrow> char" where
  "digitChar d = ''0123456789'' ! d"

fun numberToString :: "nat \<Rightarrow> string" where
  "numberToString n =
     (if n < 10 then [digitChar n] else numberToString (n div 10) @ [digitChar (n mod 10)])"

declare numberToString.simps [simp del]

subsection \<open>ImportManager\<close>

text \<open>
  Modelled from the spec: \<^verbatim>\<open>ImportRewriter\<close> is an interface of \<^verbatim>\<open>'../../imports'\<close>,
  which is not among the sources. The manager only calls its three methods, which the spec
  lists with their arguments, so a rewriter is a record of three functions.
\<close>

record ImportRewriter =
  shouldImportSymbol :: "string \<Rightarrow> string \<Rightarrow> bool"
  rewriteSymbol :: "string \<Rightarrow> string \<Rightarrow> string"
  rewriteSpecifier :: "string \<Rightarrow> string \<Rightarrow> string"

text \<open>
  Modelled from the spec: \<^verbatim>\<open>NoopImportRewriter\<close>, the default rewriter, is declared in
  \<^verbatim>\<open>'../../imports'\<close>, which is not among the sources. The spec gives it as the no-op
  default: identity symbol, always import, identity specifier.
\<close>

definition NoopImportRewriter :: ImportRewriter where
  "NoopImportRewriter =
     \<lparr>shouldImportSymbol = (\<lambda>symbol specifier. True),
      rewriteSymbol = (\<lambda>symbol specifier. symbol),
      rewriteSpecifier = (\<lambda>specifier inContextOfFile. specifier)\<rparr>"

record Import =
  specifier :: string
  qualifier :: string

record NamedImport =
  moduleImport :: "string option"
  symbol :: string

record ImportManager =
  rewriter :: ImportRewriter
  prefix :: string
  specifierToIdentifier :: "(string, string) jsmap"
  nextIndex :: nat

text \<open>The constructor: an empty map and the counter at 0.\<close>

definition newImportManager :: "ImportRewriter \<Rightarrow> string \<Rightarrow> ImportManager" where
  "newImportManager rw p =
     \<lparr>rewriter = rw, prefix = p, specifierToIdentifier = [], nextIndex = 0\<rparr>"

definition generateNamedImport ::
  "ImportManager \<Rightarrow> string \<Rightarrow> string \<Rightarrow> NamedImport \<times> ImportManager" where
  "generateNamedImport this moduleName originalSymbol =
     (let symbol = rewriteSymbol (rewriter this) originalSymbol moduleName in
      if \<not> shouldImportSymbol (rewriter this) symbol moduleName
      then (\<lparr>moduleImport = None, symbol = symbol\<rparr>, this)
      else
        let this' =
          (if \<not> jsmap_has (specifierToIdentifier this) moduleName
           then this\<lparr>specifierToIdentifier :=
                        jsmap_set (specifierToIdentifier this) moduleName
                          (prefix this @ numberToString (nextIndex this)),
                      nextIndex := nextIndex this + 1\<rparr>
           else this)
        in (\<lparr>moduleImport = jsmap_get (specifierToIdentifier this') moduleName,
              symbol = symbol\<rparr>, this'))"

definition getAllImports :: "ImportManager \<Rightarrow> string \<Rightarrow> Import list" where
  "getAllImports this contextPath =
     map (\<lambda>(specifier, qualifier).
            \<lparr>specifier = rewriteSpecifier (rewriter this) specifier contextPath,
             qualifier = qualifier\<rparr>)
         (specifierToIdentifier this)"

subsection \<open>The intermediate representation\<close>

text \<open>
  Modelled from the spec: the IR's classes are declared in \<^verbatim>\<open>@angular/compiler\<close>, which is
  not among the sources. The types below follow the spec's data model and the import list
  of the translator, with the fields that the translator reads. Every expression carries
  its optional \<^verbatim>\<open>sourceSpan\<close> as its last field.
\<close>

record ParseSourceFile =
  content :: string
  url :: string

record ParseLocation =
  location_file :: ParseSourceFile
  offset :: nat

record ParseSourceSpan =
  start :: ParseLocation
  span_end :: ParseLocation

text \<open>
  Modelled from the spec: the enumeration \<^verbatim>\<open>BinaryOperator\<close> is declared in
  \<^verbatim>\<open>@angular/compiler\<close>. Its sixteen members below are the ones the operator table
  names; \<open>OtherOperator\<close> stands for any member the table does not list (the spec's tag
  absent from the static table), and carries the member's name, which is what
  \<^verbatim>\<open>BinaryOperator[op]\<close> evaluates to.
\<close>

datatype BinaryOperator =
    Equals | NotEquals | Identical | NotIdentical | Minus | Plus_op | Divide | Multiply
  | Modulo | And | Or | BitwiseAnd | Lower | LowerEquals | Bigger | BiggerEquals
  | OtherOperator string

fun BinaryOperator_name :: "BinaryOperator \<Rightarrow> string" where
  "BinaryOperator_name Equals = ''Equals''"
| "BinaryOperator_name NotEquals = ''NotEquals''"
| "BinaryOperator_name Identical = ''Identical''"
| "BinaryOperator_name NotIdentical = ''NotIdentical''"
| "BinaryOperator_name Minus = ''Minus''"
| "BinaryOperator_name Plus_op = ''Plus''"
| "BinaryOperator_name Divide = ''Divide''"
| "BinaryOperator_name Multiply = ''Multiply''"
| "BinaryOperator_name Modulo = ''Modulo''"
| "BinaryOperator_name And = ''And''"
| "BinaryOperator_name Or = ''Or''"
| "BinaryOperator_name BitwiseAnd = ''BitwiseAnd''"
| "BinaryOperator_name Lower = ''Lower''"
| "BinaryOperator_name LowerEquals = ''LowerEquals''"
| "BinaryOperator_name Bigger = ''Bigger''"
| "BinaryOperator_name BiggerEquals = ''BiggerEquals''"
| "BinaryOperator_name (OtherOperator n) = n"

datatype StmtModifier = Final | Private | Exported | Static

datatype FnParam = FnParam string

datatype ExternalReference = ExternalReference "string option" "string option"

text \<open>
  A literal's value: \<^verbatim>\<open>undefined\<close>, \<^verbatim>\<open>null\<close>, or a primitive. Numbers are the
  integers here.
\<close>

datatype PrimitiveValue = StringValue string | NumberValue int | BooleanValue bool

datatype LiteralValue = Undefined | Null | Primitive PrimitiveValue

record CookedRawString =
  cooked :: string
  raw :: string

subsection \<open>TypeScript syntax trees\<close>

text \<open>
  The output nodes. Every node has an \<^verbatim>\<open>emitNode\<close>, which holds the source-map range
  and the synthetic leading comments, and a syntax: one constructor per factory function
  \<^verbatim>\<open>ts.createXxx\<close> that the translator calls, holding the arguments that the translator
  passes. The factory is a library of the TypeScript compiler; it is taken to build the
  node it is asked for and nothing else, but for \<^verbatim>\<open>ts.createTemplateMiddle\<close>, which
  refuses some raw texts and is defined with the helper for localized strings.
\<close>

datatype SyntaxKind =
    AmpersandAmpersandToken | GreaterThanToken | GreaterThanEqualsToken | AmpersandToken
  | SlashToken | EqualsEqualsToken | EqualsEqualsEqualsToken | LessThanToken
  | LessThanEqualsToken | MinusToken | PercentToken | AsteriskToken | ExclamationEqualsToken
  | ExclamationEqualsEqualsToken | BarBarToken | PlusToken | EqualsToken | ExclamationToken
  | NoSubstitutionTemplateLiteral | TemplateHead | TemplateMiddle | TemplateTail
  | MultiLineCommentTrivia

datatype NodeFlags = NodeFlags_None | NodeFlags_Const

datatype ScriptTarget = ES3 | ES5 | ES2015 | ES2016 | ES2017 | ES2018 | ES2019 | ES2020 | ESNext

fun ScriptTarget_value :: "ScriptTarget \<Rightarrow> nat" where
  "ScriptTarget_value ES3 = 0"
| "ScriptTarget_value ES5 = 1"
| "ScriptTarget_value ES2015 = 2"
| "ScriptTarget_value ES2016 = 3"
| "ScriptTarget_value ES2017 = 4"
| "ScriptTarget_value ES2018 = 5"
| "ScriptTarget_value ES2019 = 6"
| "ScriptTarget_value ES2020 = 7"
| "ScriptTarget_value ESNext = 99"

fun ScriptTarget_name :: "ScriptTarget \<Rightarrow> string" where
  "ScriptTarget_name ES3 = ''ES3''"
| "ScriptTarget_name ES5 = ''ES5''"
| "ScriptTarget_name ES2015 = ''ES2015''"
| "ScriptTarget_name ES2016 = ''ES2016''"
| "ScriptTarget_name ES2017 = ''ES2017''"
| "ScriptTarget_name ES2018 = ''ES2018''"
| "ScriptTarget_name ES2019 = ''ES2019''"
| "ScriptTarget_name ES2020 = ''ES2020''"
| "ScriptTarget_name ESNext = ''ESNext''"

record SourceMapSource =
  fileName :: string
  source_text :: string

record SourceMapRange =
  pos :: nat
  range_end :: nat
  source :: "SourceMapSource option"

record SynthesizedComment =
  kind :: SyntaxKind
  comment_text :: string
  comment_pos :: int
  comment_end :: int
  hasTrailingNewLine :: "bool option"

record EmitNode =
  sourceMapRange :: "SourceMapRange option"
  leadingComments :: "SynthesizedComment list"

datatype tsNode = TsNode (emitNode: EmitNode) (node_syntax: tsSyntax)
and tsSyntax =
    ts_Identifier string
  | ts_Null
  | ts_StringLiteral string
  | ts_NumericLiteral int
  | ts_True
  | ts_False
  | ts_Binary tsNode SyntaxKind tsNode
  | ts_Paren tsNode
  | ts_ElementAccess tsNode tsNode
  | ts_PropertyAccess tsNode tsNode
  | ts_Call tsNode "tsNode list"
  | ts_New tsNode "tsNode list"
  | ts_Conditional tsNode tsNode tsNode
  | ts_Prefix SyntaxKind tsNode
  | ts_TypeOf tsNode
  | ts_FunctionExpression "string option" "tsNode list" tsNode
  | ts_Parameter string
  | ts_Block "tsNode list"
  | ts_ArrayLiteral "tsNode list"
  | ts_ObjectLiteral "tsNode list"
  | ts_PropertyAssignment tsNode tsNode
  | ts_TaggedTemplate tsNode tsNode
  | ts_TemplateExpression tsNode "tsNode list"
  | ts_TemplateSpan tsNode tsNode
  | ts_TemplateLiteralLike SyntaxKind string string
  | ts_VariableStatement tsNode
  | ts_VariableDeclarationList "tsNode list" NodeFlags
  | ts_VariableDeclaration string "tsNode option"
  | ts_FunctionDeclaration string "tsNode list" tsNode
  | ts_ExpressionStatement tsNode
  | ts_Return tsNode
  | ts_If tsNode tsNode "tsNode option"
  | ts_Throw tsNode
  | ts_NotEmittedStatement tsNode

text \<open>The factory functions and the three functions that write a node's \<^verbatim>\<open>emitNode\<close>.\<close>

definition createNode :: "tsSyntax \<Rightarrow> tsNode" where
  "createNode s = TsNode \<lparr>sourceMapRange = None, leadingComments = []\<rparr> s"

abbreviation "createIdentifier cookedText \<equiv> createNode (ts_Identifier cookedText)"
abbreviation "createNull \<equiv> createNode ts_Null"
abbreviation "createBinary left operator right \<equiv> createNode (ts_Binary left operator right)"
abbreviation "createParen expression \<equiv> createNode (ts_Paren expression)"
abbreviation "createElementAccess expression index \<equiv>
  createNode (ts_ElementAccess expression index)"
abbreviation "createPropertyAccess expression name \<equiv>
  createNode (ts_PropertyAccess expression name)"
abbreviation "createCall expression argumentsArray \<equiv>
  createNode (ts_Call expression argumentsArray)"
abbreviation "createNew expression argumentsArray \<equiv>
  createNode (ts_New expression argumentsArray)"
abbreviation "createConditional condition whenTrue whenFalse \<equiv>
  createNode (ts_Conditional condition whenTrue whenFalse)"
abbreviation "createPrefix operator operand \<equiv> createNode (ts_Prefix operator operand)"
abbreviation "createTypeOf expression \<equiv> createNode (ts_TypeOf expression)"
abbreviation "createFunctionExpression name parameters body \<equiv>
  createNode (ts_FunctionExpression name parameters body)"
abbreviation "createParameter name \<equiv> createNode (ts_Parameter name)"
abbreviation "createBlock statements \<equiv> createNode (ts_Block statements)"
abbreviation "createArrayLiteral elements \<equiv> createNode (ts_ArrayLiteral elements)"
abbreviation "createObjectLiteral properties \<equiv> createNode (ts_ObjectLiteral properties)"
abbreviation "createPropertyAssignment name initializer \<equiv>
  createNode (ts_PropertyAssignment name initializer)"
abbreviation "createTaggedTemplate tag template \<equiv> createNode (ts_TaggedTemplate tag template)"
abbreviation "createTemplateExpression head spans \<equiv>
  createNode (ts_TemplateExpression head spans)"
abbreviation "createTemplateSpan expression literal \<equiv>
  createNode (ts_TemplateSpan expression literal)"
abbreviation "createNoSubstitutionTemplateLiteral cookedText rawText \<equiv>
  createNode (ts_TemplateLiteralLike NoSubstitutionTemplateLiteral cookedText rawText)"
abbreviation "createTemplateHead cookedText rawText \<equiv>
  createNode (ts_TemplateLiteralLike TemplateHead cookedText rawText)"
abbreviation "createVariableStatement declarationList \<equiv>
  createNode (ts_VariableStatement declarationList)"
abbreviation "createVariableDeclarationList declarations flags \<equiv>
  createNode (ts_VariableDeclarationList declarations flags)"
abbreviation "createVariableDeclaration name initializer \<equiv>
  createNode (ts_VariableDeclaration name initializer)"
abbreviation "createFunctionDeclaration name parameters body \<equiv>
  createNode (ts_FunctionDeclaration name parameters body)"
abbreviation "createStatement expression \<equiv> createNode (ts_ExpressionStatement expression)"
abbreviation "createReturn expression \<equiv> createNode (ts_Return expression)"
abbreviation "createIf expression thenStatement elseStatement \<equiv>
  createNode (ts_If expression thenStatement elseStatement)"
abbreviation "createThrow expression \<equiv> createNode (ts_Throw expression)"
abbreviation "createNotEmittedStatement original \<equiv>
  createNode (ts_NotEmittedStatement original)"

text \<open>\<^verbatim>\<open>ts.createLiteral\<close> of a string, a number or a boolean.\<close>

fun createLiteral :: "PrimitiveValue \<Rightarrow> tsNode" where
  "createLiteral (StringValue v) = createNode (ts_StringLiteral v)"
| "createLiteral (NumberValue v) = createNode (ts_NumericLiteral v)"
| "createLiteral (BooleanValue v) = createNode (if v then ts_True else ts_False)"

definition isIdentifier :: "tsNode \<Rightarrow> bool" where
  "isIdentifier n = (case node_syntax n of ts_Identifier _ \<Rightarrow> True | _ \<Rightarrow> False)"

definition ts_setSourceMapRange :: "tsNode \<Rightarrow> SourceMapRange \<Rightarrow> tsNode" where
  "ts_setSourceMapRange n r =
     TsNode ((emitNode n)\<lparr>sourceMapRange := Some r\<rparr>) (node_syntax n)"

definition setSyntheticLeadingComments :: "tsNode \<Rightarrow> SynthesizedComment list \<Rightarrow> tsNode" where
  "setSyntheticLeadingComments n comments =
     TsNode ((emitNode n)\<lparr>leadingComments := comments\<rparr>) (node_syntax n)"

definition addSyntheticLeadingComment ::
  "tsNode \<Rightarrow> SyntaxKind \<Rightarrow> string \<Rightarrow> bool \<Rightarrow> tsNode" where
  "addSyntheticLeadingComment n k t hasTrailing =
     setSyntheticLeadingComments n
       (leadingComments (emitNode n) @
        [\<lparr>kind = k, comment_text = t, comment_pos = - 1, comment_end = - 1,
          hasTrailingNewLine = Some hasTrailing\<rparr>])"

definition createSourceMapSource :: "string \<Rightarrow> string \<Rightarrow> SourceMapSource" where
  "createSourceMapSource name t = \<lparr>fileName = name, source_text = t\<rparr>"

text \<open>
  The statement \<^verbatim>\<open>spans[spans.length - 1].literal.kind = ts.SyntaxKind.TemplateTail\<close>
  of the helper for localized strings: the kind of the span's literal is overwritten, its
  texts stay.
\<close>

definition setLiteralKind :: "tsNode \<Rightarrow> SyntaxKind \<Rightarrow> tsNode" where
  "setLiteralKind span k =
     (case node_syntax span of
        ts_TemplateSpan expression literal \<Rightarrow>
          (case node_syntax literal of
             ts_TemplateLiteralLike _ t rawText \<Rightarrow>
               TsNode (emitNode span)
                 (ts_TemplateSpan expression
                    (TsNode (emitNode literal) (ts_TemplateLiteralLike k t rawText)))
           | _ \<Rightarrow> span)
      | _ \<Rightarrow> span)"

subsection \<open>The IR's expressions and statements\<close>

text \<open>
  Modelled from the spec: the node classes of \<^verbatim>\<open>@angular/compiler\<close>, one constructor per
  class that the visitor has a method for, holding the fields that the method reads. A
  \<^verbatim>\<open>LocalizedString\<close> holds its message parts in serialized form (see the helper for
  localized strings), a \<^verbatim>\<open>JSDocCommentStmt\<close> holds the text that its \<^verbatim>\<open>toString()\<close>
  returns, and a \<^verbatim>\<open>WrappedNodeExpr\<close> holds an output node. A field that may be
  \<^verbatim>\<open>null\<close> is an option.
\<close>

datatype Expression =
    ReadVarExpr "string option" "ParseSourceSpan option"
  | WriteVarExpr string Expression "ParseSourceSpan option"
  | WriteKeyExpr Expression Expression Expression "ParseSourceSpan option"
  | WritePropExpr Expression string Expression "ParseSourceSpan option"
  | InvokeMethodExpr Expression "string option" "Expression list" "ParseSourceSpan option"
  | InvokeFunctionExpr Expression "Expression list" bool "ParseSourceSpan option"
  | InstantiateExpr Expression "Expression list" "ParseSourceSpan option"
  | LiteralExpr LiteralValue "ParseSourceSpan option"
  | LocalizedString "CookedRawString list" "Expression list" "ParseSourceSpan option"
  | ExternalExpr ExternalReference "ParseSourceSpan option"
  | ConditionalExpr Expression Expression "Expression option" "ParseSourceSpan option"
  | NotExpr Expression "ParseSourceSpan option"
  | AssertNotNull Expression "ParseSourceSpan option"
  | CastExpr Expression "ParseSourceSpan option"
  | FunctionExpr "FnParam list" "Statement list" "string option" "ParseSourceSpan option"
  | BinaryOperatorExpr BinaryOperator Expression Expression "ParseSourceSpan option"
  | ReadPropExpr Expression string "ParseSourceSpan option"
  | ReadKeyExpr Expression Expression "ParseSourceSpan option"
  | LiteralArrayExpr "Expression list" "ParseSourceSpan option"
  | LiteralMapExpr "LiteralMapEntry list" "ParseSourceSpan option"
  | CommaExpr "Expression list" "ParseSourceSpan option"
  | WrappedNodeExpr tsNode "ParseSourceSpan option"
  | TypeofExpr Expression "ParseSourceSpan option"
and LiteralMapEntry = LiteralMapEntry string Expression bool
and Statement =
    DeclareVarStmt string "Expression option" "StmtModifier list"
  | DeclareFunctionStmt string "FnParam list" "Statement list"
  | ExpressionStatement Expression
  | ReturnStatement Expression
  | ClassStmt string
  | IfStmt Expression "Statement list" "Statement list"
  | TryCatchStmt "Statement list" "Statement list"
  | ThrowStmt Expression
  | CommentStmt string
  | JSDocCommentStmt string

subsection \<open>The visitor's state, errors and sequencing\<close>

text \<open>
  The fields of \<^verbatim>\<open>ExpressionTranslatorVisitor\<close>. The import manager is the object the
  caller passed in, so what a visit does to it is what the caller sees afterwards. The
  \<^verbatim>\<open>DefaultImportRecorder\<close> is an interface of \<^verbatim>\<open>'../../imports'\<close>; it is the list
  of the identifiers that \<^verbatim>\<open>recordUsedIdentifier\<close> was called with, in call order.
\<close>

record ExpressionTranslatorVisitor =
  importManager :: ImportManager
  defaultImportRecorder :: "tsNode list"
  scriptTarget :: ScriptTarget
  externalSourceFiles :: "(string, SourceMapSource) jsmap"

text \<open>
  \<^verbatim>\<open>throw new Error(message)\<close> is \<open>Error message\<close>. Calling a method on \<^verbatim>\<open>null\<close>
  or \<^verbatim>\<open>undefined\<close> is the \<^verbatim>\<open>TypeError\<close> of the JavaScript engine.
\<close>

datatype error = Error string | TypeError

text \<open>
  A visit runs on the visitor's state and ends with a thrown error or a value; in both
  cases the state is the one reached so far.
\<close>

type_synonym 'a visit =
  "ExpressionTranslatorVisitor \<Rightarrow> (error + 'a) \<times> ExpressionTranslatorVisitor"

definition succeed :: "'a \<Rightarrow> 'a visit" where
  "succeed x this = (Inr x, this)"

definition throw :: "error \<Rightarrow> 'a visit" where
  "throw e this = (Inl e, this)"

definition andThen :: "'a visit \<Rightarrow> ('a \<Rightarrow> 'b visit) \<Rightarrow> 'b visit" where
  "andThen m f this =
     (case m this of (Inl e, this') \<Rightarrow> (Inl e, this') | (Inr x, this') \<Rightarrow> f x this')"

text \<open>\<^verbatim>\<open>xs.map(x => x.visitExpression(this, context))\<close>: the visits run from left to right.\<close>

fun visitAll :: "'a visit list \<Rightarrow> 'a list visit" where
  "visitAll [] = succeed []"
| "visitAll (v # vs) = andThen v (\<lambda>x. andThen (visitAll vs) (\<lambda>xs. succeed (x # xs)))"

subsection \<open>ExpressionTranslatorVisitor\<close>

text \<open>
  One definition per method. A sub-expression of the node is passed as its visit, the
  function \<^verbatim>\<open>context => sub.visitExpression(this, context)\<close>; the dispatch functions at
  the end of the section tie the methods to the IR's classes.
\<close>

definition BINARY_OPERATORS :: "(BinaryOperator, SyntaxKind) jsmap" where
  "BINARY_OPERATORS =
     [(And, AmpersandAmpersandToken),
      (Bigger, GreaterThanToken),
      (BiggerEquals, GreaterThanEqualsToken),
      (BitwiseAnd, AmpersandToken),
      (Divide, SlashToken),
      (Equals, EqualsEqualsToken),
      (Identical, EqualsEqualsEqualsToken),
      (Lower, LessThanToken),
      (LowerEquals, LessThanEqualsToken),
      (Minus, MinusToken),
      (Modulo, PercentToken),
      (Multiply, AsteriskToken),
      (NotEquals, ExclamationEqualsToken),
      (NotIdentical, ExclamationEqualsEqualsToken),
      (Or, BarBarToken),
      (Plus_op, PlusToken)]"

definition setSourceMapRange :: "tsNode \<Rightarrow> ParseSourceSpan option \<Rightarrow> tsNode visit" where
  "setSourceMapRange expr sourceSpan this =
     (case sourceSpan of
        None \<Rightarrow> (Inr expr, this)
      | Some span \<Rightarrow>
          (let url = url (location_file (start span));
               content = content (location_file (start span)) in
           if url \<noteq> [] then
             let this' =
               (if \<not> jsmap_has (externalSourceFiles this) url
                then this\<lparr>externalSourceFiles :=
                             jsmap_set (externalSourceFiles this) url
                               (createSourceMapSource url content)\<rparr>
                else this);
               source = jsmap_get (externalSourceFiles this') url
             in (Inr (ts_setSourceMapRange expr
                        \<lparr>pos = offset (start span), range_end = offset (span_end span),
                         source = source\<rparr>), this')
           else (Inr expr, this)))"

definition visitDeclareVarStmt ::
  "string \<Rightarrow> (Context \<Rightarrow> tsNode visit) option \<Rightarrow> StmtModifier list \<Rightarrow> Context \<Rightarrow> tsNode visit"
  where
  "visitDeclareVarStmt name value modifiers context this =
     (let nodeFlags =
        (if ScriptTarget_value (scriptTarget this) \<ge> ScriptTarget_value ES2015
            \<and> Final \<in> set modifiers
         then NodeFlags_Const else NodeFlags_None) in
      case value of
        None \<Rightarrow>
          succeed (createVariableStatement (createVariableDeclarationList
            [createVariableDeclaration name None] nodeFlags)) this
      | Some v \<Rightarrow>
          andThen (v (withExpressionMode context)) (\<lambda>initializer.
            succeed (createVariableStatement (createVariableDeclarationList
              [createVariableDeclaration name (Some initializer)] nodeFlags))) this)"

definition visitDeclareFunctionStmt ::
  "string \<Rightarrow> FnParam list \<Rightarrow> (Context \<Rightarrow> tsNode visit) list \<Rightarrow> Context \<Rightarrow> tsNode visit" where
  "visitDeclareFunctionStmt name params statements context =
     andThen (visitAll (map (\<lambda>child. child (withStatementMode context)) statements))
       (\<lambda>body. succeed (createFunctionDeclaration name
          (map (\<lambda>param. case param of FnParam n \<Rightarrow> createParameter n) params)
          (createBlock body)))"

definition visitExpressionStmt :: "(Context \<Rightarrow> tsNode visit) \<Rightarrow> Context \<Rightarrow> tsNode visit" where
  "visitExpressionStmt expr context =
     andThen (expr (withStatementMode context)) (\<lambda>e. succeed (createStatement e))"

definition visitReturnStmt :: "(Context \<Rightarrow> tsNode visit) \<Rightarrow> Context \<Rightarrow> tsNode visit" where
  "visitReturnStmt value context =
     andThen (value (withExpressionMode context)) (\<lambda>e. succeed (createReturn e))"

definition visitDeclareClassStmt :: "string \<Rightarrow> Context \<Rightarrow> tsNode visit" where
  "visitDeclareClassStmt name context this =
     (if ScriptTarget_value (scriptTarget this) < ScriptTarget_value ES2015
      then throw (Error (''Unsupported mode: Visiting a '' @ [CHR 0x22] @ ''declare class''
             @ [CHR 0x22] @ '' statement (class '' @ name @ '') while targeting ''
             @ ScriptTarget_name (scriptTarget this) @ ''.'')) this
      else throw (Error ''Method not implemented.'') this)"

definition visitIfStmt ::
  "(Context \<Rightarrow> tsNode visit) \<Rightarrow> (Context \<Rightarrow> tsNode visit) list \<Rightarrow>
   (Context \<Rightarrow> tsNode visit) list \<Rightarrow> Context \<Rightarrow> tsNode visit" where
  "visitIfStmt condition trueCase falseCase context =
     andThen (condition context) (\<lambda>c.
     andThen (visitAll (map (\<lambda>child. child (withStatementMode context)) trueCase)) (\<lambda>t.
       if length falseCase > 0
       then andThen (visitAll (map (\<lambda>child. child (withStatementMode context)) falseCase))
              (\<lambda>f. succeed (createIf c (createBlock t) (Some (createBlock f))))
       else succeed (createIf c (createBlock t) None)))"

definition visitTryCatchStmt :: "Context \<Rightarrow> tsNode visit" where
  "visitTryCatchStmt context = throw (Error ''Method not implemented.'')"

definition visitThrowStmt :: "(Context \<Rightarrow> tsNode visit) \<Rightarrow> Context \<Rightarrow> tsNode visit" where
  "visitThrowStmt err context =
     andThen (err (withExpressionMode context)) (\<lambda>e. succeed (createThrow e))"

definition visitCommentStmt :: "Context \<Rightarrow> tsNode visit" where
  "visitCommentStmt context = throw (Error ''Method not implemented.'')"

text \<open>The argument is the comment's text, \<^verbatim>\<open>stmt.toString()\<close>.\<close>

definition visitJSDocCommentStmt :: "string \<Rightarrow> Context \<Rightarrow> tsNode visit" where
  "visitJSDocCommentStmt t context =
     succeed (setSyntheticLeadingComments
       (createNotEmittedStatement (createLiteral (StringValue [])))
       [\<lparr>kind = MultiLineCommentTrivia, comment_text = t, comment_pos = - 1,
         comment_end = - 1, hasTrailingNewLine = None\<rparr>])"

text \<open>
  \<^verbatim>\<open>ts.createIdentifier(ast.name !)\<close>: the name of a built-in variable is \<^verbatim>\<open>null\<close>, and
  the factory reads the length of the text it is given.
\<close>

definition visitReadVarExpr ::
  "string option \<Rightarrow> ParseSourceSpan option \<Rightarrow> Context \<Rightarrow> tsNode visit" where
  "visitReadVarExpr name sourceSpan context =
     (case name of
        None \<Rightarrow> throw TypeError
      | Some n \<Rightarrow> setSourceMapRange (createIdentifier n) sourceSpan)"

definition visitWriteVarExpr ::
  "string \<Rightarrow> (Context \<Rightarrow> tsNode visit) \<Rightarrow> Context \<Rightarrow> tsNode visit" where
  "visitWriteVarExpr name value context =
     andThen (value context) (\<lambda>v.
       let result = createBinary (createIdentifier name) EqualsToken v in
       succeed (if isStatement context then result else createParen result))"

definition visitWriteKeyExpr ::
  "(Context \<Rightarrow> tsNode visit) \<Rightarrow> (Context \<Rightarrow> tsNode visit) \<Rightarrow> (Context \<Rightarrow> tsNode visit) \<Rightarrow>
   Context \<Rightarrow> tsNode visit" where
  "visitWriteKeyExpr receiver index value context =
     (let exprContext = withExpressionMode context in
      andThen (receiver exprContext) (\<lambda>r.
      andThen (index exprContext) (\<lambda>i.
      let lhs = createElementAccess r i in
      andThen (value exprContext) (\<lambda>rhs.
      let result = createBinary lhs EqualsToken rhs in
      succeed (if isStatement context then result else createParen result)))))"

definition visitWritePropExpr ::
  "(Context \<Rightarrow> tsNode visit) \<Rightarrow> string \<Rightarrow> (Context \<Rightarrow> tsNode visit) \<Rightarrow>
   Context \<Rightarrow> tsNode visit" where
  "visitWritePropExpr receiver name value context =
     andThen (receiver context) (\<lambda>r.
     andThen (value context) (\<lambda>v.
       succeed (createBinary (createPropertyAccess r (createIdentifier name)) EqualsToken v)))"

definition visitInvokeMethodExpr ::
  "(Context \<Rightarrow> tsNode visit) \<Rightarrow> string option \<Rightarrow> (Context \<Rightarrow> tsNode visit) list \<Rightarrow>
   ParseSourceSpan option \<Rightarrow> Context \<Rightarrow> tsNode visit" where
  "visitInvokeMethodExpr receiver name args sourceSpan context =
     andThen (receiver context) (\<lambda>target.
     andThen (visitAll (map (\<lambda>arg. arg context) args)) (\<lambda>as.
       let call = createCall
         (case name of
            Some n \<Rightarrow> createPropertyAccess target (createIdentifier n)
          | None \<Rightarrow> target) as
       in setSourceMapRange call sourceSpan))"

definition visitInvokeFunctionExpr ::
  "(Context \<Rightarrow> tsNode visit) \<Rightarrow> (Context \<Rightarrow> tsNode visit) list \<Rightarrow> bool \<Rightarrow>
   ParseSourceSpan option \<Rightarrow> Context \<Rightarrow> tsNode visit" where
  "visitInvokeFunctionExpr fn args pure sourceSpan context =
     andThen (fn context) (\<lambda>f.
     andThen (visitAll (map (\<lambda>arg. arg context) args)) (\<lambda>as.
       let expr = createCall f as;
           expr' = (if pure
                    then addSyntheticLeadingComment expr MultiLineCommentTrivia ''@__PURE__'' False
                    else expr)
       in setSourceMapRange expr' sourceSpan))"

definition visitInstantiateExpr ::
  "(Context \<Rightarrow> tsNode visit) \<Rightarrow> (Context \<Rightarrow> tsNode visit) list \<Rightarrow> Context \<Rightarrow> tsNode visit"
  where
  "visitInstantiateExpr classExpr args context =
     andThen (classExpr context) (\<lambda>c.
     andThen (visitAll (map (\<lambda>arg. arg context) args)) (\<lambda>as.
       succeed (createNew c as)))"

definition visitLiteralExpr ::
  "LiteralValue \<Rightarrow> ParseSourceSpan option \<Rightarrow> Context \<Rightarrow> tsNode visit" where
  "visitLiteralExpr value sourceSpan context =
     (let expr =
        (case value of
           Undefined \<Rightarrow> createIdentifier ''undefined''
         | Null \<Rightarrow> createNull
         | Primitive v \<Rightarrow> createLiteral v)
      in setSourceMapRange expr sourceSpan)"

definition visitExternalExpr :: "ExternalReference \<Rightarrow> Context \<Rightarrow> tsNode visit" where
  "visitExternalExpr value context this =
     (case value of ExternalReference moduleName name \<Rightarrow>
        (case name of
           None \<Rightarrow> throw (Error ''Import unknown module or symbol [object Object]'') this
         | Some n \<Rightarrow>
             (case moduleName of
                Some m \<Rightarrow>
                  (let (namedImport, imports') = generateNamedImport (importManager this) m n;
                       this' = this\<lparr>importManager := imports'\<rparr> in
                   case moduleImport namedImport of
                     None \<Rightarrow> succeed (createIdentifier (symbol namedImport)) this'
                   | Some alias \<Rightarrow>
                       succeed (createPropertyAccess (createIdentifier alias)
                                  (createIdentifier (symbol namedImport))) this')
              | None \<Rightarrow> succeed (createIdentifier n) this)))"

text \<open>
  \<^verbatim>\<open>ast.falseCase !.visitExpression(this, context)\<close>: the arguments of
  \<^verbatim>\<open>ts.createConditional\<close> are evaluated from left to right, so the false case is
  reached after the condition and the true case have been visited.
\<close>

definition visitConditionalExpr ::
  "(Context \<Rightarrow> tsNode visit) \<Rightarrow> (Context \<Rightarrow> tsNode visit) \<Rightarrow>
   (Context \<Rightarrow> tsNode visit) option \<Rightarrow> Context \<Rightarrow> tsNode visit" where
  "visitConditionalExpr condition trueCase falseCase context =
     andThen (condition context) (\<lambda>c.
     andThen (trueCase context) (\<lambda>t.
       case falseCase of
         None \<Rightarrow> throw TypeError
       | Some falseVisit \<Rightarrow>
           andThen (falseVisit context) (\<lambda>f. succeed (createConditional c t f))))"

definition visitNotExpr :: "(Context \<Rightarrow> tsNode visit) \<Rightarrow> Context \<Rightarrow> tsNode visit" where
  "visitNotExpr condition context =
     andThen (condition context) (\<lambda>c. succeed (createPrefix ExclamationToken c))"

definition visitAssertNotNullExpr :: "(Context \<Rightarrow> tsNode visit) \<Rightarrow> Context \<Rightarrow> tsNode visit" where
  "visitAssertNotNullExpr condition context = condition context"

definition visitCastExpr :: "(Context \<Rightarrow> tsNode visit) \<Rightarrow> Context \<Rightarrow> tsNode visit" where
  "visitCastExpr value context = value context"

text \<open>\<^verbatim>\<open>ast.name || undefined\<close>: a name that is \<^verbatim>\<open>null\<close> or empty is left out.\<close>

definition visitFunctionExpr ::
  "FnParam list \<Rightarrow> (Context \<Rightarrow> tsNode visit) list \<Rightarrow> string option \<Rightarrow> Context \<Rightarrow> tsNode visit"
  where
  "visitFunctionExpr params statements name context =
     andThen (visitAll (map (\<lambda>stmt. stmt context) statements)) (\<lambda>body.
       succeed (createFunctionExpression
         (case name of None \<Rightarrow> None | Some n \<Rightarrow> if n = [] then None else Some n)
         (map (\<lambda>param. case param of FnParam n \<Rightarrow> createParameter n) params)
         (createBlock body)))"

text \<open>
  \<^verbatim>\<open>BINARY_OPERATORS.get(ast.operator) !\<close> is read between the two visits. The table
  holds a token for every key it has, so the \<open>None\<close> branch below is never taken.
\<close>

definition visitBinaryOperatorExpr ::
  "BinaryOperator \<Rightarrow> (Context \<Rightarrow> tsNode visit) \<Rightarrow> (Context \<Rightarrow> tsNode visit) \<Rightarrow>
   Context \<Rightarrow> tsNode visit" where
  "visitBinaryOperatorExpr operator lhs rhs context =
     (if \<not> jsmap_has BINARY_OPERATORS operator
      then throw (Error (''Unknown binary operator: '' @ BinaryOperator_name operator))
      else
        andThen (lhs context) (\<lambda>l.
          case jsmap_get BINARY_OPERATORS operator of
            None \<Rightarrow> throw TypeError
          | Some token \<Rightarrow> andThen (rhs context) (\<lambda>r. succeed (createBinary l token r))))"

definition visitReadPropExpr ::
  "(Context \<Rightarrow> tsNode visit) \<Rightarrow> string \<Rightarrow> Context \<Rightarrow> tsNode visit" where
  "visitReadPropExpr receiver name context =
     andThen (receiver context) (\<lambda>r.
       succeed (createPropertyAccess r (createIdentifier name)))"

definition visitReadKeyExpr ::
  "(Context \<Rightarrow> tsNode visit) \<Rightarrow> (Context \<Rightarrow> tsNode visit) \<Rightarrow> Context \<Rightarrow> tsNode visit" where
  "visitReadKeyExpr receiver index context =
     andThen (receiver context) (\<lambda>r.
     andThen (index context) (\<lambda>i. succeed (createElementAccess r i)))"

definition visitLiteralArrayExpr ::
  "(Context \<Rightarrow> tsNode visit) list \<Rightarrow> ParseSourceSpan option \<Rightarrow> Context \<Rightarrow> tsNode visit" where
  "visitLiteralArrayExpr entries sourceSpan context =
     andThen (visitAll (map (\<lambda>expr. expr context) entries)) (\<lambda>es.
       setSourceMapRange (createArrayLiteral es) sourceSpan)"

text \<open>The callback that \<^verbatim>\<open>visitLiteralMapExpr\<close> maps over the entries.\<close>

definition visitLiteralMapEntry ::
  "string \<Rightarrow> (Context \<Rightarrow> tsNode visit) \<Rightarrow> bool \<Rightarrow> Context \<Rightarrow> tsNode visit" where
  "visitLiteralMapEntry key value quoted context =
     andThen (value context) (\<lambda>v.
       succeed (createPropertyAssignment
         (if quoted then createLiteral (StringValue key) else createIdentifier key) v))"

definition visitLiteralMapExpr ::
  "(Context \<Rightarrow> tsNode visit) list \<Rightarrow> ParseSourceSpan option \<Rightarrow> Context \<Rightarrow> tsNode visit" where
  "visitLiteralMapExpr entries sourceSpan context =
     andThen (visitAll (map (\<lambda>entry. entry context) entries)) (\<lambda>es.
       setSourceMapRange (createObjectLiteral es) sourceSpan)"

definition visitCommaExpr :: "Context \<Rightarrow> tsNode visit" where
  "visitCommaExpr context = throw (Error ''Method not implemented.'')"

definition visitWrappedNodeExpr :: "tsNode \<Rightarrow> Context \<Rightarrow> tsNode visit" where
  "visitWrappedNodeExpr node context this =
     (if isIdentifier node
      then (Inr node, this\<lparr>defaultImportRecorder := defaultImportRecorder this @ [node]\<rparr>)
      else (Inr node, this))"

definition visitTypeofExpr :: "(Context \<Rightarrow> tsNode visit) \<Rightarrow> Context \<Rightarrow> tsNode visit" where
  "visitTypeofExpr expr context =
     andThen (expr context) (\<lambda>e. succeed (createTypeOf e))"

subsection \<open>The helper for localized strings\<close>

text \<open>
  Modelled from the spec: \<^verbatim>\<open>serializeI18nHead\<close> and \<^verbatim>\<open>serializeI18nTemplatePart\<close>
  are methods of the IR's \<^verbatim>\<open>LocalizedString\<close> class, which is not among the sources.
  The spec has the head made of the first message part and each span's literal made of the
  message part after the span's expression. A \<^verbatim>\<open>LocalizedString\<close> therefore holds each
  message part as the cooked and raw text that these methods return for it: the first
  function returns part 0, the second part \<open>i\<close>. A part that is not there cannot be
  serialized.
\<close>

definition serializeI18nHead :: "CookedRawString list \<Rightarrow> CookedRawString visit" where
  "serializeI18nHead messageParts =
     (case messageParts of [] \<Rightarrow> throw TypeError | part # _ \<Rightarrow> succeed part)"

definition serializeI18nTemplatePart :: "CookedRawString list \<Rightarrow> nat \<Rightarrow> CookedRawString visit"
  where
  "serializeI18nTemplatePart messageParts i =
     (if i < length messageParts then succeed (messageParts ! i) else throw TypeError)"

text \<open>
  \<^verbatim>\<open>ts.createTemplateMiddle(text, rawText)\<close>. The factory takes a raw text that is the
  text itself as it is. Any other raw text it checks by scanning it, and for a middle that
  scan fails whatever the raw text is: the factory throws
  \<^verbatim>\<open>Debug Failure. Invalid raw text\<close>. For a head and for a no-substitution template the
  scan accepts a raw text whose cooked form is the text, which is what the two serializers
  return, so \<^verbatim>\<open>ts.createTemplateHead\<close> and \<^verbatim>\<open>ts.createNoSubstitutionTemplateLiteral\<close>
  build their node.
\<close>

definition createTemplateMiddle :: "string \<Rightarrow> string \<Rightarrow> tsNode visit" where
  "createTemplateMiddle cookedText rawText =
     (if rawText = cookedText
      then succeed (createNode (ts_TemplateLiteralLike TemplateMiddle cookedText rawText))
      else throw (Error ''Debug Failure. Invalid raw text''))"

text \<open>
  The loop \<^verbatim>\<open>for (let i = 1; i < ast.messageParts.length; i++)\<close>, from the value of
  \<open>i\<close> and the spans pushed so far. \<^verbatim>\<open>ast.expressions[i - 1]\<close> is \<^verbatim>\<open>undefined\<close>
  past the end of the array, and visiting it is a \<^verbatim>\<open>TypeError\<close>.
\<close>

function visitLocalizedString_loop ::
  "CookedRawString list \<Rightarrow> (Context \<Rightarrow> tsNode visit) list \<Rightarrow> Context \<Rightarrow> nat \<Rightarrow>
   tsNode list \<Rightarrow> tsNode list visit" where
  "visitLocalizedString_loop messageParts expressions context i spans this =
     (if i < length messageParts then
        (if i - 1 < length expressions then
           (case (expressions ! (i - 1)) context this of
              (Inl e, this') \<Rightarrow> (Inl e, this')
            | (Inr resolvedExpression, this') \<Rightarrow>
                (case serializeI18nTemplatePart messageParts i this' of
                   (Inl e, this'') \<Rightarrow> (Inl e, this'')
                 | (Inr templatePart, this'') \<Rightarrow>
                     (case createTemplateMiddle (cooked templatePart) (raw templatePart) this''
                      of
                        (Inl e, this''') \<Rightarrow> (Inl e, this''')
                      | (Inr templateMiddle, this''') \<Rightarrow>
                          visitLocalizedString_loop messageParts expressions context (i + 1)
                            (spans @ [createTemplateSpan resolvedExpression templateMiddle])
                            this''')))
         else (Inl TypeError, this))
      else (Inr spans, this))"
  by pat_completeness auto
termination
  by (relation "measure (\<lambda>(messageParts, expressions, context, i, spans, this).
        length messageParts - i)") auto

declare visitLocalizedString_loop.simps [simp del]

definition visitLocalizedString ::
  "CookedRawString list \<Rightarrow> (Context \<Rightarrow> tsNode visit) list \<Rightarrow> Context \<Rightarrow> tsNode visit" where
  "visitLocalizedString messageParts expressions context =
     andThen (serializeI18nHead messageParts) (\<lambda>metaBlock.
       if length messageParts = 1 then
         succeed (createTaggedTemplate (createIdentifier ''$localize'')
           (createNoSubstitutionTemplateLiteral (cooked metaBlock) (raw metaBlock)))
       else
         (let head = createTemplateHead (cooked metaBlock) (raw metaBlock) in
          andThen (visitLocalizedString_loop messageParts expressions context 1 []) (\<lambda>spans.
            let spans' =
              (if length spans > 0
               then spans[length spans - 1 :=
                      setLiteralKind (spans ! (length spans - 1)) TemplateTail]
               else spans)
            in succeed (createTaggedTemplate (createIdentifier ''$localize'')
                 (createTemplateExpression head spans')))))"

text \<open>The method of the expression translator, which guards the helper.\<close>

definition ExpressionTranslatorVisitor_visitLocalizedString ::
  "CookedRawString list \<Rightarrow> (Context \<Rightarrow> tsNode visit) list \<Rightarrow> Context \<Rightarrow> tsNode visit" where
  "ExpressionTranslatorVisitor_visitLocalizedString messageParts expressions context this =
     (if ScriptTarget_value (scriptTarget this) < ScriptTarget_value ES2015
      then throw (Error (''Unsupported mode: Visiting a localized string (which produces a ''
             @ ''tagged template literal) ' while targeting ''
             @ ScriptTarget_name (scriptTarget this) @ ''.'')) this
      else visitLocalizedString messageParts expressions context this)"

subsection \<open>Dispatch and entry points\<close>

text \<open>
  \<^verbatim>\<open>expression.visitExpression(visitor, context)\<close> and
  \<^verbatim>\<open>statement.visitStatement(visitor, context)\<close> call the visitor's method for the
  node's class.
\<close>

primrec visitExpression :: "Expression \<Rightarrow> Context \<Rightarrow> tsNode visit"
  and visitEntry :: "LiteralMapEntry \<Rightarrow> Context \<Rightarrow> tsNode visit"
  and visitStatement :: "Statement \<Rightarrow> Context \<Rightarrow> tsNode visit" where
  "visitExpression (ReadVarExpr name sourceSpan) = visitReadVarExpr name sourceSpan"
| "visitExpression (WriteVarExpr name value sourceSpan) =
     visitWriteVarExpr name (visitExpression value)"
| "visitExpression (WriteKeyExpr receiver index value sourceSpan) =
     visitWriteKeyExpr (visitExpression receiver) (visitExpression index) (visitExpression value)"
| "visitExpression (WritePropExpr receiver name value sourceSpan) =
     visitWritePropExpr (visitExpression receiver) name (visitExpression value)"
| "visitExpression (InvokeMethodExpr receiver name args sourceSpan) =
     visitInvokeMethodExpr (visitExpression receiver) name (map visitExpression args) sourceSpan"
| "visitExpression (InvokeFunctionExpr fn args pure sourceSpan) =
     visitInvokeFunctionExpr (visitExpression fn) (map visitExpression args) pure sourceSpan"
| "visitExpression (InstantiateExpr classExpr args sourceSpan) =
     visitInstantiateExpr (visitExpression classExpr) (map visitExpression args)"
| "visitExpression (LiteralExpr value sourceSpan) = visitLiteralExpr value sourceSpan"
| "visitExpression (LocalizedString messageParts expressions sourceSpan) =
     ExpressionTranslatorVisitor_visitLocalizedString messageParts
       (map visitExpression expressions)"
| "visitExpression (ExternalExpr value sourceSpan) = visitExternalExpr value"
| "visitExpression (ConditionalExpr condition trueCase falseCase sourceSpan) =
     visitConditionalExpr (visitExpression condition) (visitExpression trueCase)
       (map_option visitExpression falseCase)"
| "visitExpression (NotExpr condition sourceSpan) = visitNotExpr (visitExpression condition)"
| "visitExpression (AssertNotNull condition sourceSpan) =
     visitAssertNotNullExpr (visitExpression condition)"
| "visitExpression (CastExpr value sourceSpan) = visitCastExpr (visitExpression value)"
| "visitExpression (FunctionExpr params statements name sourceSpan) =
     visitFunctionExpr params (map visitStatement statements) name"
| "visitExpression (BinaryOperatorExpr operator lhs rhs sourceSpan) =
     visitBinaryOperatorExpr operator (visitExpression lhs) (visitExpression rhs)"
| "visitExpression (ReadPropExpr receiver name sourceSpan) =
     visitReadPropExpr (visitExpression receiver) name"
| "visitExpression (ReadKeyExpr receiver index sourceSpan) =
     visitReadKeyExpr (visitExpression receiver) (visitExpression index)"
| "visitExpression (LiteralArrayExpr entries sourceSpan) =
     visitLiteralArrayExpr (map visitExpression entries) sourceSpan"
| "visitExpression (LiteralMapExpr entries sourceSpan) =
     visitLiteralMapExpr (map visitEntry entries) sourceSpan"
| "visitExpression (CommaExpr parts sourceSpan) = visitCommaExpr"
| "visitExpression (WrappedNodeExpr node sourceSpan) = visitWrappedNodeExpr node"
| "visitExpression (TypeofExpr expr sourceSpan) = visitTypeofExpr (visitExpression expr)"
| "visitEntry (LiteralMapEntry key value quoted) =
     visitLiteralMapEntry key (visitExpression value) quoted"
| "visitStatement (DeclareVarStmt name value modifiers) =
     visitDeclareVarStmt name (map_option visitExpression value) modifiers"
| "visitStatement (DeclareFunctionStmt name params statements) =
     visitDeclareFunctionStmt name params (map visitStatement statements)"
| "visitStatement (ExpressionStatement expr) = visitExpressionStmt (visitExpression expr)"
| "visitStatement (ReturnStatement value) = visitReturnStmt (visitExpression value)"
| "visitStatement (ClassStmt name) = visitDeclareClassStmt name"
| "visitStatement (IfStmt condition trueCase falseCase) =
     visitIfStmt (visitExpression condition) (map visitStatement trueCase)
       (map visitStatement falseCase)"
| "visitStatement (TryCatchStmt bodyStmts catchStmts) = visitTryCatchStmt"
| "visitStatement (ThrowStmt err) = visitThrowStmt (visitExpression err)"
| "visitStatement (CommentStmt comment) = visitCommentStmt"
| "visitStatement (JSDocCommentStmt t) = visitJSDocCommentStmt t"

text \<open>
  \<^verbatim>\<open>new ExpressionTranslatorVisitor(imports, defaultImportRecorder, scriptTarget)\<close>, and
  the two entry points. The state that comes back holds the import manager as the
  translation left it.
\<close>

definition newExpressionTranslatorVisitor ::
  "ImportManager \<Rightarrow> tsNode list \<Rightarrow> ScriptTarget \<Rightarrow> ExpressionTranslatorVisitor" where
  "newExpressionTranslatorVisitor imports' recorder target =
     \<lparr>importManager = imports', defaultImportRecorder = recorder, scriptTarget = target,
      externalSourceFiles = []\<rparr>"

definition translateExpression ::
  "Expression \<Rightarrow> ImportManager \<Rightarrow> tsNode list \<Rightarrow> ScriptTarget \<Rightarrow>
   (error + tsNode) \<times> ExpressionTranslatorVisitor" where
  "translateExpression expression imports' recorder target =
     visitExpression expression (Context False)
       (newExpressionTranslatorVisitor imports' recorder target)"

definition translateStatement ::
  "Statement \<Rightarrow> ImportManager \<Rightarrow> tsNode list \<Rightarrow> ScriptTarget \<Rightarrow>
   (error + tsNode) \<times> ExpressionTranslatorVisitor" where
  "translateStatement statement imports' recorder target =
     visitStatement statement (Context True)
       (newExpressionTranslatorVisitor imports' recorder target)"

text \<open>
  A sequence of \<^verbatim>\<open>generateNamedImport\<close> calls on one manager: the calls are pairs
  (module name, symbol name), the results are collected in call order.
\<close>

fun generateNamedImports ::
  "ImportManager \<Rightarrow> (string \<times> string) list \<Rightarrow> NamedImport list \<times> ImportManager" where
  "generateNamedImports this [] = ([], this)"
| "generateNamedImports this ((moduleName, originalSymbol) # calls) =
     (let (r, this') = generateNamedImport this moduleName originalSymbol;
          (rs, this'') = generateNamedImports this' calls
      in (r # rs, this''))"

text \<open>The elements of a list in the order in which each is first seen.\<close>

fun firstSeen :: "'a list \<Rightarrow> 'a list" where
  "firstSeen [] = []"
| "firstSeen (x # xs) = x # filter (\<lambda>y. y \<noteq> x) (firstSeen xs)"

subsection \<open>Notions used in the statements about the import manager\<close>

text \<open>
  These are not part of the program. \<open>parseNumber\<close> reads a decimal numeral back,
  \<open>aliasTable p n ms\<close> is the map that gives the modules \<open>ms\<close> the aliases
  \<open>p\<close> followed by \<open>n\<close>, \<open>n + 1\<close>, ..., \<open>addNew\<close> appends a module that is not
  yet listed, \<open>importedModules\<close> are the module names of the calls that the rewriter
  wants imported, and \<open>expectedImport\<close> is the answer to one call given the final list
  of modules.
\<close>

definition parseNumber :: "string \<Rightarrow> nat" where
  "parseNumber cs = foldl (\<lambda>a c. 10 * a + (of_char c - 48)) 0 cs"

definition aliasTable :: "string \<Rightarrow> nat \<Rightarrow> string list \<Rightarrow> (string, string) jsmap" where
  "aliasTable p n ms = map (\<lambda>(k, m). (m, p @ numberToString k)) (enumerate n ms)"

definition addNew :: "'a list \<Rightarrow> 'a \<Rightarrow> 'a list" where
  "addNew ms m = (if m \<in> set ms then ms else ms @ [m])"

definition importedModules :: "ImportRewriter \<Rightarrow> (string \<times> string) list \<Rightarrow> string list" where
  "importedModules rw calls =
     map fst (filter (\<lambda>(m, s). shouldImportSymbol rw (rewriteSymbol rw s m) m) calls)"

definition expectedImport ::
  "ImportRewriter \<Rightarrow> string \<Rightarrow> string list \<Rightarrow> string \<times> string \<Rightarrow> NamedImport" where
  "expectedImport rw p final call =
     (let sym = rewriteSymbol rw (snd call) (fst call) in
      \<lparr>moduleImport =
         (if shouldImportSymbol rw sym (fst call) then map_of (aliasTable p 0 final) (fst call)
          else None),
       symbol = sym\<rparr>)"

subsection \<open>Notions used in the statements about the visitor\<close>

text \<open>
  These are not part of the program either. \<open>templateSpans\<close> are the spans as the loop
  of the helper pushes them, each with a middle. \<open>sourceSpanOf\<close> reads the
  \<^verbatim>\<open>sourceSpan\<close> field of an expression, \<open>setsSourceMapRange\<close> holds of the six classes
  whose visit calls \<^verbatim>\<open>setSourceMapRange\<close>, \<open>expectedRange\<close> is the range such a visit
  attaches, read in the state it ends in, and \<open>hasSource\<close> says that the cache holds a
  handle for the span's URL. \<open>keepsSources\<close> says that a visit leaves every cached handle
  as it is.
\<close>

definition templateSpans :: "tsNode list \<Rightarrow> CookedRawString list \<Rightarrow> tsNode list" where
  "templateSpans rs parts =
     map2 (\<lambda>r p. createTemplateSpan r
             (createNode (ts_TemplateLiteralLike TemplateMiddle (cooked p) (raw p)))) rs parts"

fun sourceSpanOf :: "Expression \<Rightarrow> ParseSourceSpan option" where
  "sourceSpanOf (ReadVarExpr name sourceSpan) = sourceSpan"
| "sourceSpanOf (WriteVarExpr name value sourceSpan) = sourceSpan"
| "sourceSpanOf (WriteKeyExpr receiver index value sourceSpan) = sourceSpan"
| "sourceSpanOf (WritePropExpr receiver name value sourceSpan) = sourceSpan"
| "sourceSpanOf (InvokeMethodExpr receiver name args sourceSpan) = sourceSpan"
| "sourceSpanOf (InvokeFunctionExpr fn args pure sourceSpan) = sourceSpan"
| "sourceSpanOf (InstantiateExpr classExpr args sourceSpan) = sourceSpan"
| "sourceSpanOf (LiteralExpr value sourceSpan) = sourceSpan"
| "sourceSpanOf (LocalizedString messageParts expressions sourceSpan) = sourceSpan"
| "sourceSpanOf (ExternalExpr value sourceSpan) = sourceSpan"
| "sourceSpanOf (ConditionalExpr condition trueCase falseCase sourceSpan) = sourceSpan"
| "sourceSpanOf (NotExpr condition sourceSpan) = sourceSpan"
| "sourceSpanOf (AssertNotNull condition sourceSpan) = sourceSpan"
| "sourceSpanOf (CastExpr value sourceSpan) = sourceSpan"
| "sourceSpanOf (FunctionExpr params statements name sourceSpan) = sourceSpan"
| "sourceSpanOf (BinaryOperatorExpr operator lhs rhs sourceSpan) = sourceSpan"
| "sourceSpanOf (ReadPropExpr receiver name sourceSpan) = sourceSpan"
| "sourceSpanOf (ReadKeyExpr receiver index sourceSpan) = sourceSpan"
| "sourceSpanOf (LiteralArrayExpr entries sourceSpan) = sourceSpan"
| "sourceSpanOf (LiteralMapExpr entries sourceSpan) = sourceSpan"
| "sourceSpanOf (CommaExpr parts sourceSpan) = sourceSpan"
| "sourceSpanOf (WrappedNodeExpr node sourceSpan) = sourceSpan"
| "sourceSpanOf (TypeofExpr expr sourceSpan) = sourceSpan"

fun setsSourceMapRange :: "Expression \<Rightarrow> bool" where
  "setsSourceMapRange (ReadVarExpr name sourceSpan) = True"
| "setsSourceMapRange (InvokeMethodExpr receiver name args sourceSpan) = True"
| "setsSourceMapRange (InvokeFunctionExpr fn args pure sourceSpan) = True"
| "setsSourceMapRange (LiteralExpr value sourceSpan) = True"
| "setsSourceMapRange (LiteralArrayExpr entries sourceSpan) = True"
| "setsSourceMapRange (LiteralMapExpr entries sourceSpan) = True"
| "setsSourceMapRange _ = False"

definition expectedRange ::
  "ParseSourceSpan option \<Rightarrow> ExpressionTranslatorVisitor \<Rightarrow> SourceMapRange option" where
  "expectedRange sourceSpan this =
     (case sourceSpan of
        None \<Rightarrow> None
      | Some span \<Rightarrow>
          if url (location_file (start span)) = [] then None
          else Some \<lparr>pos = offset (start span), range_end = offset (span_end span),
                     source = jsmap_get (externalSourceFiles this)
                                (url (location_file (start span)))\<rparr>)"

definition hasSource :: "ParseSourceSpan option \<Rightarrow> ExpressionTranslatorVisitor \<Rightarrow> bool" where
  "hasSource sourceSpan this =
     (case sourceSpan of
        None \<Rightarrow> True
      | Some span \<Rightarrow>
          url (location_file (start span)) = []
          \<or> jsmap_has (externalSourceFiles this) (url (location_file (start span))))"

definition keepsSources :: "'a visit \<Rightarrow> bool" where
  "keepsSources m = (\<forall>this u h. jsmap_get (externalSourceFiles this) u = Some h \<longrightarrow>
      jsmap_get (externalSourceFiles (snd (m this))) u = Some h)"

section \<open>Properties\<close>

subsection \<open>Decimal numerals are injective\<close>

lemma of_char_digitChar: "d < 10 \<Longrightarrow> (of_char (digitChar d) :: nat) = 48 + d"
proof -
  assume "d < 10"
  then have "d \<in> {0, 1, 2, 3, 4, 5, 6, 7, 8, 9}" by auto
  then show ?thesis by (auto simp: digitChar_def)
qed

lemma parseNumber_snoc: "parseNumber (cs @ [c]) = 10 * parseNumber cs + (of_char c - 48)"
  by (simp add: parseNumber_def)

lemma parseNumber_numberToString: "parseNumber (numberToString n) = n"
proof (induction n rule: numberToString.induct)
  case (1 n)
  show ?case
  proof (cases "n < 10")
    case True
    then show ?thesis
      by (subst numberToString.simps) (simp add: parseNumber_def of_char_digitChar)
  next
    case False
    then have "parseNumber (numberToString (n div 10)) = n div 10" using 1 by simp
    with False show ?thesis
      by (subst numberToString.simps) (simp add: parseNumber_snoc of_char_digitChar)
  qed
qed

lemma numberToString_inject: "numberToString a = numberToString b \<Longrightarrow> a = b"
  by (metis parseNumber_numberToString)

subsection \<open>The import manager\<close>

lemma aliasTable_keys: "map fst (aliasTable p n ms) = ms"
  by (induction ms arbitrary: n) (simp_all add: aliasTable_def)

lemma aliasTable_append:
  "aliasTable p n (ms @ zs) = aliasTable p n ms @ aliasTable p (n + length ms) zs"
  by (simp add: aliasTable_def enumerate_append_eq)

lemma aliasTable_nth:
  "distinct ms \<Longrightarrow> k < length ms \<Longrightarrow>
     map_of (aliasTable p n ms) (ms ! k) = Some (p @ numberToString (n + k))"
proof (induction ms arbitrary: n k)
  case Nil
  then show ?case by simp
next
  case (Cons m ms)
  show ?case
  proof (cases k)
    case 0
    then show ?thesis by (simp add: aliasTable_def)
  next
    case (Suc j)
    with Cons.prems have "ms ! j \<noteq> m" "distinct ms" "j < length ms" by auto
    with Cons.IH [of j "Suc n"] Suc show ?thesis by (simp add: aliasTable_def)
  qed
qed

lemma aliasTable_prefix:
  "m \<in> set ms \<Longrightarrow> map_of (aliasTable p n (ms @ zs)) m = map_of (aliasTable p n ms) m"
proof -
  assume "m \<in> set ms"
  then have "m \<in> dom (map_of (aliasTable p n ms))"
    using aliasTable_keys [of p n ms] by (metis dom_map_of_conv_image_fst set_map)
  then show ?thesis
    by (simp add: aliasTable_append map_add_dom_app_simps(1))
qed

lemma foldl_addNew: "foldl addNew ms xs = ms @ filter (\<lambda>y. y \<notin> set ms) (firstSeen xs)"
proof (induction xs arbitrary: ms)
  case Nil
  then show ?case by simp
next
  case (Cons x xs)
  show ?case
  proof (cases "x \<in> set ms")
    case True
    then have "filter (\<lambda>y. y \<noteq> x \<and> y \<notin> set ms) (firstSeen xs) = filter (\<lambda>y. y \<notin> set ms) (firstSeen xs)"
      by (intro filter_cong) auto
    with True Cons.IH [of ms] show ?thesis by (simp add: addNew_def)
  next
    case False
    have "filter (\<lambda>y. y \<noteq> x \<and> y \<notin> set ms) (firstSeen xs) = filter (\<lambda>y. y \<notin> set ms \<and> y \<noteq> x) (firstSeen xs)"
      by (intro filter_cong) auto
    with False Cons.IH [of "ms @ [x]"] show ?thesis by (simp add: addNew_def)
  qed
qed

lemma distinct_firstSeen: "distinct (firstSeen xs)"
  by (induction xs) auto

lemma set_firstSeen: "set (firstSeen xs) = set xs"
  by (induction xs) auto

lemma jsmap_has_aliasTable: "jsmap_has (aliasTable p n ms) m = (m \<in> set ms)"
  by (simp add: jsmap_has_def aliasTable_keys)

lemma generateNamedImport_skip:
  "\<not> shouldImportSymbol (rewriter this) (rewriteSymbol (rewriter this) s m) m \<Longrightarrow>
     generateNamedImport this m s =
       (\<lparr>moduleImport = None, symbol = rewriteSymbol (rewriter this) s m\<rparr>, this)"
  by (simp add: generateNamedImport_def)

lemma generateNamedImport_import:
  assumes "specifierToIdentifier this = aliasTable (prefix this) 0 ms"
    and "nextIndex this = length ms"
    and "shouldImportSymbol (rewriter this) (rewriteSymbol (rewriter this) s m) m"
  shows "fst (generateNamedImport this m s) =
           \<lparr>moduleImport = map_of (aliasTable (prefix this) 0 (addNew ms m)) m,
            symbol = rewriteSymbol (rewriter this) s m\<rparr>"
    and "specifierToIdentifier (snd (generateNamedImport this m s)) =
           aliasTable (prefix this) 0 (addNew ms m)"
    and "nextIndex (snd (generateNamedImport this m s)) = length (addNew ms m)"
    and "prefix (snd (generateNamedImport this m s)) = prefix this"
    and "rewriter (snd (generateNamedImport this m s)) = rewriter this"
  using assms
  by (simp_all add: generateNamedImport_def jsmap_has_aliasTable jsmap_get_def jsmap_set_def
      addNew_def aliasTable_append Let_def)
    (simp_all add: aliasTable_def)

lemma foldl_addNew_prefix: "\<exists>zs. foldl addNew ms xs = ms @ zs"
  by (simp add: foldl_addNew)

lemma generateNamedImports_table:
  assumes "specifierToIdentifier this = aliasTable (prefix this) 0 ms"
    and "nextIndex this = length ms"
  shows "specifierToIdentifier (snd (generateNamedImports this calls)) =
           aliasTable (prefix this) 0 (foldl addNew ms (importedModules (rewriter this) calls))
       \<and> nextIndex (snd (generateNamedImports this calls)) =
           length (foldl addNew ms (importedModules (rewriter this) calls))
       \<and> prefix (snd (generateNamedImports this calls)) = prefix this
       \<and> rewriter (snd (generateNamedImports this calls)) = rewriter this
       \<and> fst (generateNamedImports this calls) =
           map (expectedImport (rewriter this) (prefix this)
                  (foldl addNew ms (importedModules (rewriter this) calls))) calls"
  using assms
proof (induction calls arbitrary: this ms)
  case Nil
  then show ?case by (simp add: importedModules_def)
next
  case (Cons call calls)
  obtain m s where call: "call = (m, s)" by (cases call)
  let ?rw = "rewriter this" and ?p = "prefix this"
  show ?case
  proof (cases "shouldImportSymbol ?rw (rewriteSymbol ?rw s m) m")
    case False
    then have step: "generateNamedImport this m s =
        (\<lparr>moduleImport = None, symbol = rewriteSymbol ?rw s m\<rparr>, this)"
      by (rule generateNamedImport_skip)
    from False have mods: "importedModules ?rw ((m, s) # calls) = importedModules ?rw calls"
      by (simp add: importedModules_def)
    from Cons.IH [OF Cons.prems] False show ?thesis
      by (simp add: call step mods split_beta expectedImport_def)
  next
    case True
    let ?this' = "snd (generateNamedImport this m s)"
    note st = generateNamedImport_import [OF Cons.prems True]
    have mods: "importedModules ?rw ((m, s) # calls) = m # importedModules ?rw calls"
      using True by (simp add: importedModules_def)
    have inv': "specifierToIdentifier ?this' = aliasTable (prefix ?this') 0 (addNew ms m)"
      "nextIndex ?this' = length (addNew ms m)"
      by (simp_all add: st)
    obtain zs where zs: "foldl addNew (addNew ms m) (importedModules ?rw calls) = addNew ms m @ zs"
      using foldl_addNew_prefix by blast
    have "m \<in> set (addNew ms m)" by (simp add: addNew_def)
    then have stable: "map_of (aliasTable ?p 0 (addNew ms m @ zs)) m =
        map_of (aliasTable ?p 0 (addNew ms m)) m"
      by (rule aliasTable_prefix)
    from Cons.IH [OF inv'] show ?thesis
      by (simp add: call mods split_beta st zs stable expectedImport_def True)
  qed
qed

lemma newImportManager_table:
  "specifierToIdentifier (newImportManager rw p) = aliasTable (prefix (newImportManager rw p)) 0 []"
  "nextIndex (newImportManager rw p) = length ([] :: string list)"
  by (simp_all add: newImportManager_def aliasTable_def)

lemma generateNamedImports_new:
  "specifierToIdentifier (snd (generateNamedImports (newImportManager rw p) calls)) =
     aliasTable p 0 (firstSeen (importedModules rw calls))"
  "rewriter (snd (generateNamedImports (newImportManager rw p) calls)) = rw"
  "fst (generateNamedImports (newImportManager rw p) calls) =
     map (expectedImport rw p (firstSeen (importedModules rw calls))) calls"
  using generateNamedImports_table [OF newImportManager_table, of rw p calls]
  by (simp_all add: foldl_addNew) (simp_all add: newImportManager_def)

text \<open>
  Claim C6. After any sequence of \<^verbatim>\<open>generateNamedImport\<close> calls on a new manager,
  \<^verbatim>\<open>getAllImports\<close> lists one entry per imported module, in the order in which the
  modules were first given an alias, however often each was asked for again: entry \<open>k\<close>
  has the specifier of the \<open>k\<close>-th first-seen module, rewritten by the rewriter for the
  context path, and the alias made of the prefix and \<open>k\<close>.
\<close>

theorem getAllImports_first_seen_order:
  "getAllImports (snd (generateNamedImports (newImportManager rw p) calls)) contextPath =
     map (\<lambda>(k, m). \<lparr>specifier = rewriteSpecifier rw m contextPath,
                      qualifier = p @ numberToString k\<rparr>)
         (enumerate 0 (firstSeen (importedModules rw calls)))
   \<and> distinct (firstSeen (importedModules rw calls))
   \<and> set (firstSeen (importedModules rw calls)) = set (importedModules rw calls)"
  by (simp add: getAllImports_def generateNamedImports_new aliasTable_def split_beta
      distinct_firstSeen set_firstSeen)

lemma importedModules_Noop: "importedModules NoopImportRewriter calls = map fst calls"
  by (simp add: importedModules_def NoopImportRewriter_def split_beta)

text \<open>
  Claim C3. With the default rewriter, every call in a sequence of
  \<^verbatim>\<open>generateNamedImport\<close> calls on a new manager returns the alias made of the prefix
  and the rank of its module among the modules in first-seen order; so two calls return
  the same alias exactly when they name the same module, whatever the symbols are, and no
  sequence number is used for two modules.
\<close>

theorem generateNamedImport_deterministic_aliases:
  fixes p :: string and calls :: "(string \<times> string) list"
  defines "rs \<equiv> fst (generateNamedImports (newImportManager NoopImportRewriter p) calls)"
    and "ms \<equiv> firstSeen (map fst calls)"
  shows "length rs = length calls
    \<and> (\<forall>i<length calls. \<exists>k<length ms. ms ! k = fst (calls ! i)
          \<and> rs ! i = \<lparr>moduleImport = Some (p @ numberToString k), symbol = snd (calls ! i)\<rparr>)
    \<and> (\<forall>i<length calls. \<forall>j<length calls.
          (moduleImport (rs ! i) = moduleImport (rs ! j)) = (fst (calls ! i) = fst (calls ! j)))"
proof -
  have rs: "rs = map (expectedImport NoopImportRewriter p ms) calls"
    by (simp add: rs_def ms_def generateNamedImports_new importedModules_Noop)
  have dist: "distinct ms" by (simp add: ms_def distinct_firstSeen)
  have at: "\<exists>k<length ms. ms ! k = fst (calls ! i)
      \<and> rs ! i = \<lparr>moduleImport = Some (p @ numberToString k), symbol = snd (calls ! i)\<rparr>"
    if i: "i < length calls" for i
  proof -
    from i have "fst (calls ! i) \<in> set ms" by (simp add: ms_def set_firstSeen)
    then obtain k where k: "k < length ms" "ms ! k = fst (calls ! i)"
      by (auto simp: in_set_conv_nth)
    from aliasTable_nth [OF dist k(1), of p 0] k(2)
    have "map_of (aliasTable p 0 ms) (fst (calls ! i)) = Some (p @ numberToString k)" by simp
    with i have "rs ! i = \<lparr>moduleImport = Some (p @ numberToString k), symbol = snd (calls ! i)\<rparr>"
      by (simp add: rs expectedImport_def NoopImportRewriter_def)
    with k show ?thesis by blast
  qed
  have inj: "(moduleImport (rs ! i) = moduleImport (rs ! j)) = (fst (calls ! i) = fst (calls ! j))"
    if i: "i < length calls" and j: "j < length calls" for i j
  proof -
    from at [OF i] obtain k where k: "k < length ms" "ms ! k = fst (calls ! i)"
      "moduleImport (rs ! i) = Some (p @ numberToString k)" by auto
    from at [OF j] obtain l where l: "l < length ms" "ms ! l = fst (calls ! j)"
      "moduleImport (rs ! j) = Some (p @ numberToString l)" by auto
    show ?thesis
    proof
      assume "moduleImport (rs ! i) = moduleImport (rs ! j)"
      with k l have "numberToString k = numberToString l" by simp
      then have "k = l" by (rule numberToString_inject)
      with k l show "fst (calls ! i) = fst (calls ! j)" by simp
    next
      assume "fst (calls ! i) = fst (calls ! j)"
      with k l have "ms ! k = ms ! l" by simp
      with dist k(1) l(1) have "k = l" by (metis nth_eq_iff_index_eq)
      with k l show "moduleImport (rs ! i) = moduleImport (rs ! j)" by simp
    qed
  qed
  have "length rs = length calls" by (simp add: rs)
  with at inj show ?thesis by blast
qed

lemma numberToString_digit: "n < 10 \<Longrightarrow> numberToString n = [digitChar n]"
  by (subst numberToString.simps) simp

theorem generateNamedImport_deterministic_aliases_witness:
  "moduleImport (fst (generateNamedImports (newImportManager NoopImportRewriter ''i'')
      [(''rxjs'', ''Observable''), (''@angular/core'', ''Observable''), (''rxjs'', ''Observable'')]) ! 0)
   = moduleImport (fst (generateNamedImports (newImportManager NoopImportRewriter ''i'')
      [(''rxjs'', ''Observable''), (''@angular/core'', ''Observable''), (''rxjs'', ''Observable'')]) ! 2)
   \<and> moduleImport (fst (generateNamedImports (newImportManager NoopImportRewriter ''i'')
      [(''rxjs'', ''Observable''), (''@angular/core'', ''Observable''), (''rxjs'', ''Observable'')]) ! 0)
   \<noteq> moduleImport (fst (generateNamedImports (newImportManager NoopImportRewriter ''i'')
      [(''rxjs'', ''Observable''), (''@angular/core'', ''Observable''), (''rxjs'', ''Observable'')]) ! 1)"
proof -
  note inj = generateNamedImport_deterministic_aliases [where p = "''i''" and calls =
     "[(''rxjs'', ''Observable''), (''@angular/core'', ''Observable''), (''rxjs'', ''Observable'')]",
     THEN conjunct2, THEN conjunct2, rule_format]
  from inj [of 0 2] inj [of 0 1] show ?thesis
    by (simp del: generateNamedImports.simps)
qed

text \<open>
  Claim C9. A call of \<^verbatim>\<open>generateNamedImport\<close> for which the rewriter's
  \<^verbatim>\<open>shouldImportSymbol\<close> answers false returns no alias and leaves the manager as it
  was: the map and the counter are unchanged, and \<^verbatim>\<open>getAllImports\<close>, at once or after
  any later calls, returns what it would have returned without that call.
\<close>

theorem generateNamedImport_no_import_frame:
  assumes "\<not> shouldImportSymbol (rewriter this) (rewriteSymbol (rewriter this) s m) m"
  shows "generateNamedImport this m s =
           (\<lparr>moduleImport = None, symbol = rewriteSymbol (rewriter this) s m\<rparr>, this)
    \<and> specifierToIdentifier (snd (generateNamedImport this m s)) = specifierToIdentifier this
    \<and> nextIndex (snd (generateNamedImport this m s)) = nextIndex this
    \<and> getAllImports (snd (generateNamedImport this m s)) contextPath = getAllImports this contextPath
    \<and> getAllImports (snd (generateNamedImports this ((m, s) # calls))) contextPath =
        getAllImports (snd (generateNamedImports this calls)) contextPath"
  using assms by (simp add: generateNamedImport_def split_beta)

theorem generateNamedImport_no_import_frame_witness:
  "generateNamedImport
     (newImportManager (NoopImportRewriter\<lparr>shouldImportSymbol := \<lambda>symbol specifier. False\<rparr>) ''i'')
     ''@angular/core'' ''Component''
   = (\<lparr>moduleImport = None, symbol = ''Component''\<rparr>,
      newImportManager (NoopImportRewriter\<lparr>shouldImportSymbol := \<lambda>symbol specifier. False\<rparr>) ''i'')
   \<and> getAllImports (snd (generateNamedImport
        (newImportManager (NoopImportRewriter\<lparr>shouldImportSymbol := \<lambda>symbol specifier. False\<rparr>) ''i'')
        ''@angular/core'' ''Component'')) ''/app/main.ts'' = []"
  using generateNamedImport_no_import_frame
    [of "newImportManager (NoopImportRewriter\<lparr>shouldImportSymbol := \<lambda>symbol specifier. False\<rparr>) ''i''"
        "''Component''" "''@angular/core''" "''/app/main.ts''" "[]"]
  by (simp add: newImportManager_def NoopImportRewriter_def getAllImports_def)

subsection \<open>Sequencing\<close>

lemma andThen_Inr: "m this = (Inr x, this') \<Longrightarrow> andThen m f this = f x this'"
  by (simp add: andThen_def)

lemma andThen_Inl: "m this = (Inl e, this') \<Longrightarrow> andThen m f this = (Inl e, this')"
  by (simp add: andThen_def)

lemma andThen_succeed [simp]: "andThen (succeed x) f = f x"
  by (rule ext) (simp add: andThen_def succeed_def)

lemma andThen_throw [simp]: "andThen (throw e) f = throw e"
  by (rule ext) (simp add: andThen_def throw_def)

lemma andThen_Pair_Inr [simp]: "andThen (Pair (Inr x)) f = f x"
  by (rule ext) (simp add: andThen_def)

lemma andThen_Pair_Inl [simp]: "andThen (Pair (Inl e)) f = Pair (Inl e)"
  by (rule ext) (simp add: andThen_def)

lemma andThen_result_Inr:
  "andThen m f this = (Inr y, this'') \<Longrightarrow> \<exists>x this'. m this = (Inr x, this') \<and> f x this' = (Inr y, this'')"
  by (auto simp: andThen_def split: prod.splits sum.splits)

lemma andThen_assoc: "andThen (andThen m f) g = andThen m (\<lambda>x. andThen (f x) g)"
  by (rule ext) (simp add: andThen_def split: prod.splits sum.splits)

lemma andThen_cong_result:
  "(\<And>x this'. m this = (Inr x, this') \<Longrightarrow> f x this' = g x this') \<Longrightarrow>
   andThen m f this = andThen m g this"
  by (simp add: andThen_def split: prod.splits sum.splits)

lemma visitAll_length: "visitAll ms this = (Inr xs, this') \<Longrightarrow> length xs = length ms"
proof (induction ms arbitrary: xs this this')
  case Nil
  then show ?case by (simp add: succeed_def)
next
  case (Cons m ms)
  from Cons.prems obtain x this1 where m: "m this = (Inr x, this1)"
    and rest: "andThen (visitAll ms) (\<lambda>xs. succeed (x # xs)) this1 = (Inr xs, this')"
    by (auto dest: andThen_result_Inr)
  from rest obtain ys this2 where ys: "visitAll ms this1 = (Inr ys, this2)"
    and "succeed (x # ys) this2 = (Inr xs, this')"
    by (auto dest: andThen_result_Inr)
  then have "xs = x # ys" by (simp add: succeed_def)
  with Cons.IH [OF ys] show ?case by simp
qed

lemma setSourceMapRange_None [simp]: "setSourceMapRange expr None = succeed expr"
  by (rule ext) (simp add: setSourceMapRange_def succeed_def)

subsection \<open>Assignments\<close>

lemma visitWriteVarExpr_result:
  "value context this = (Inr v, this') \<Longrightarrow>
   visitWriteVarExpr name value context this =
     (Inr (if isStatement context then createBinary (createIdentifier name) EqualsToken v
           else createParen (createBinary (createIdentifier name) EqualsToken v)), this')"
  by (simp add: visitWriteVarExpr_def andThen_def succeed_def)

lemma visitWriteKeyExpr_result:
  "visitWriteKeyExpr receiver index value context =
     andThen (receiver (Context False)) (\<lambda>r.
     andThen (index (Context False)) (\<lambda>i.
     andThen (value (Context False)) (\<lambda>v.
       succeed (if isStatement context
                then createBinary (createElementAccess r i) EqualsToken v
                else createParen (createBinary (createElementAccess r i) EqualsToken v)))))"
  by (cases "context") (simp add: visitWriteKeyExpr_def withExpressionMode_def Let_def)

text \<open>
  Claim C1: an assignment is parenthesized when the context is in expression mode and bare
  in statement mode. The write-variable and write-indexed visits do this
  (\<open>visitWriteVarExpr_result\<close>, \<open>visitWriteKeyExpr_result\<close>). The write-property visit
  never parenthesizes: translated as an expression, \<^verbatim>\<open>a.b = 1\<close> comes out as the bare
  assignment.
\<close>

theorem visitWritePropExpr_not_parenthesized:
  "fst (translateExpression
      (WritePropExpr (ReadVarExpr (Some ''a'') None) ''b''
          (LiteralExpr (Primitive (NumberValue 1)) None) None)
      (newImportManager NoopImportRewriter ''i'') [] ES2015)
   = Inr (createBinary (createPropertyAccess (createIdentifier ''a'') (createIdentifier ''b''))
            EqualsToken (createLiteral (NumberValue 1)))"
  by (simp add: translateExpression_def visitWritePropExpr_def visitReadVarExpr_def
      visitLiteralExpr_def succeed_def)

text \<open>
  Claim C2: the write-indexed and the write-property visits visit their operands in
  expression mode whatever the incoming context is. The write-indexed visit does
  (\<open>visitWriteKeyExpr_result\<close>). The write-property visit passes the incoming context on:
  in the statement \<^verbatim>\<open>a.b = (x = 1)\<close> the value, itself an assignment, is visited in
  statement mode and comes out without its parentheses, where the same value under a
  write-indexed node keeps them.
\<close>

theorem visitWritePropExpr_value_in_statement_mode:
  "fst (translateStatement
      (ExpressionStatement
        (WritePropExpr (ReadVarExpr (Some ''a'') None) ''b''
          (WriteVarExpr ''x'' (LiteralExpr (Primitive (NumberValue 1)) None) None) None))
      (newImportManager NoopImportRewriter ''i'') [] ES2015)
   = Inr (createStatement
       (createBinary (createPropertyAccess (createIdentifier ''a'') (createIdentifier ''b''))
          EqualsToken
          (createBinary (createIdentifier ''x'') EqualsToken (createLiteral (NumberValue 1)))))"
  by (simp add: translateStatement_def visitExpressionStmt_def visitWritePropExpr_def
      visitReadVarExpr_def visitWriteVarExpr_def visitLiteralExpr_def succeed_def
      withStatementMode_def)

lemma visitWriteKeyExpr_value_in_expression_mode:
  "fst (translateStatement
      (ExpressionStatement
        (WriteKeyExpr (ReadVarExpr (Some ''a'') None) (ReadVarExpr (Some ''k'') None)
          (WriteVarExpr ''x'' (LiteralExpr (Primitive (NumberValue 1)) None) None) None))
      (newImportManager NoopImportRewriter ''i'') [] ES2015)
   = Inr (createStatement
       (createBinary (createElementAccess (createIdentifier ''a'') (createIdentifier ''k''))
          EqualsToken
          (createParen (createBinary (createIdentifier ''x'') EqualsToken
             (createLiteral (NumberValue 1))))))"
  by (simp add: translateStatement_def visitExpressionStmt_def visitWriteKeyExpr_def
      visitReadVarExpr_def visitWriteVarExpr_def visitLiteralExpr_def succeed_def
      withStatementMode_def withExpressionMode_def)

subsection \<open>External references\<close>

text \<open>
  Claim C4. The expression translator's visit of an external reference: with no symbol
  name it throws, and the state is untouched; with a symbol name and no module name it
  returns the bare identifier and the state, the import manager included, is untouched;
  with both it asks the import manager, and returns the bare identifier of the resolved
  symbol when the answer has no alias, and the property access \<open>alias.symbol\<close> when it
  has one.
\<close>

theorem visitExternalExpr_cases:
  "visitExpression (ExternalExpr (ExternalReference moduleName None) sourceSpan) context this
     = (Inl (Error ''Import unknown module or symbol [object Object]''), this)
   \<and> visitExpression (ExternalExpr (ExternalReference None (Some name)) sourceSpan) context this
     = (Inr (createIdentifier name), this)
   \<and> (moduleImport (fst (generateNamedImport (importManager this) m name)) = None \<longrightarrow>
        visitExpression (ExternalExpr (ExternalReference (Some m) (Some name)) sourceSpan)
          context this
        = (Inr (createIdentifier (symbol (fst (generateNamedImport (importManager this) m name)))),
           this\<lparr>importManager := snd (generateNamedImport (importManager this) m name)\<rparr>))
   \<and> (\<forall>alias. moduleImport (fst (generateNamedImport (importManager this) m name)) = Some alias \<longrightarrow>
        visitExpression (ExternalExpr (ExternalReference (Some m) (Some name)) sourceSpan)
          context this
        = (Inr (createPropertyAccess (createIdentifier alias)
                  (createIdentifier (symbol (fst (generateNamedImport (importManager this) m name))))),
           this\<lparr>importManager := snd (generateNamedImport (importManager this) m name)\<rparr>))"
  by (simp add: visitExternalExpr_def throw_def succeed_def split_beta)

theorem visitExternalExpr_cases_witness:
  "fst (visitExpression
     (ExternalExpr (ExternalReference (Some ''@angular/core'') (Some ''Component'')) None)
     (Context False)
     (newExpressionTranslatorVisitor (newImportManager NoopImportRewriter ''i'') [] ES2015))
   = Inr (createPropertyAccess (createIdentifier ''i0'') (createIdentifier ''Component''))
   \<and> visitExpression (ExternalExpr (ExternalReference None (Some ''Array'')) None) (Context False)
     (newExpressionTranslatorVisitor (newImportManager NoopImportRewriter ''i'') [] ES2015)
   = (Inr (createIdentifier ''Array''),
      newExpressionTranslatorVisitor (newImportManager NoopImportRewriter ''i'') [] ES2015)"
  using visitExternalExpr_cases [of "None" "None" "Context False"
      "newExpressionTranslatorVisitor (newImportManager NoopImportRewriter ''i'') [] ES2015"
      "''Array''" "''@angular/core''"]
    visitExternalExpr_cases [of "None" "None" "Context False"
      "newExpressionTranslatorVisitor (newImportManager NoopImportRewriter ''i'') [] ES2015"
      "''Component''" "''@angular/core''"]
  by (simp add: newExpressionTranslatorVisitor_def newImportManager_def NoopImportRewriter_def
      generateNamedImport_def jsmap_has_def jsmap_get_def jsmap_set_def numberToString_digit
      digitChar_def)

subsection \<open>Localized strings\<close>

lemma createTemplateMiddle_same:
  "raw p = cooked p \<Longrightarrow>
   createTemplateMiddle (cooked p) (raw p) this =
     (Inr (createNode (ts_TemplateLiteralLike TemplateMiddle (cooked p) (raw p))), this)"
  by (simp add: createTemplateMiddle_def succeed_def)

lemma createTemplateMiddle_other:
  "raw p \<noteq> cooked p \<Longrightarrow>
   createTemplateMiddle (cooked p) (raw p) this =
     (Inl (Error ''Debug Failure. Invalid raw text''), this)"
  by (simp add: createTemplateMiddle_def throw_def)

lemma visitLocalizedString_loop_eq:
  assumes len: "length expressions + 1 = length messageParts"
    and same: "\<And>j. 1 \<le> j \<Longrightarrow> j < length messageParts \<Longrightarrow>
      raw (messageParts ! j) = cooked (messageParts ! j)"
  shows "1 \<le> i \<Longrightarrow> i \<le> length messageParts \<Longrightarrow>
    visitLocalizedString_loop messageParts expressions context i spans this =
      andThen (visitAll (map (\<lambda>e. e context) (drop (i - 1) expressions)))
        (\<lambda>rs. succeed (spans @ templateSpans rs (drop i messageParts))) this"
proof (induction "length messageParts - i" arbitrary: i spans this)
  case 0
  with len have "i = length messageParts" "drop (i - 1) expressions = []" by auto
  then show ?case
    by (subst visitLocalizedString_loop.simps) (simp add: succeed_def templateSpans_def)
next
  case (Suc n)
  from Suc.hyps(2) Suc.prems len have i: "i < length messageParts" "i - 1 < length expressions"
    by auto
  have "Suc (i - Suc 0) = i" using Suc.prems(1) by simp
  with i have de: "drop (i - Suc 0) expressions = expressions ! (i - Suc 0) # drop i expressions"
    using Cons_nth_drop_Suc [of "i - Suc 0" expressions] by simp
  have dp: "drop i messageParts = messageParts ! i # drop (i + 1) messageParts"
    using i by (simp add: Cons_nth_drop_Suc)
  show ?case
  proof (cases "(expressions ! (i - 1)) context this")
    case (Pair res this1)
    show ?thesis
    proof (cases res)
      case (Inl e)
      with Pair i show ?thesis
        by (subst visitLocalizedString_loop.simps) (simp add: de andThen_def)
    next
      case (Inr r)
      have n: "n = length messageParts - (i + 1)" using Suc.hyps(2) by simp
      have ih: "visitLocalizedString_loop messageParts expressions context (i + 1)
          (spans @ [createTemplateSpan r
             (createNode (ts_TemplateLiteralLike TemplateMiddle (cooked (messageParts ! i))
               (raw (messageParts ! i))))]) this1 =
        andThen (visitAll (map (\<lambda>e. e context) (drop i expressions)))
          (\<lambda>rs. succeed ((spans @ [createTemplateSpan r
             (createNode (ts_TemplateLiteralLike TemplateMiddle (cooked (messageParts ! i))
               (raw (messageParts ! i))))])
             @ templateSpans rs (drop (i + 1) messageParts))) this1"
        using Suc.hyps(1) [OF n, of _ this1] i by simp
      have step: "visitLocalizedString_loop messageParts expressions context i spans this =
        visitLocalizedString_loop messageParts expressions context (i + 1)
          (spans @ [createTemplateSpan r
             (createNode (ts_TemplateLiteralLike TemplateMiddle (cooked (messageParts ! i))
               (raw (messageParts ! i))))]) this1"
        using Pair Inr i
        by (subst visitLocalizedString_loop.simps)
          (simp add: serializeI18nTemplatePart_def succeed_def
            createTemplateMiddle_same [OF same [OF Suc.prems(1) i(1)]])
      have rhs: "andThen (visitAll (map (\<lambda>e. e context) (drop (i - 1) expressions)))
          (\<lambda>rs. succeed (spans @ templateSpans rs (drop i messageParts))) this =
        andThen (visitAll (map (\<lambda>e. e context) (drop i expressions)))
          (\<lambda>rs. succeed ((spans @ [createTemplateSpan r
             (createNode (ts_TemplateLiteralLike TemplateMiddle (cooked (messageParts ! i))
               (raw (messageParts ! i))))])
             @ templateSpans rs (drop (i + 1) messageParts))) this1"
        using Pair Inr
        by (simp add: de dp andThen_Inr andThen_assoc templateSpans_def)
      show ?thesis unfolding step ih rhs ..
    qed
  qed
qed

lemma setLiteralKind_span [simp]:
  "setLiteralKind (createTemplateSpan r (createNode (ts_TemplateLiteralLike k c w))) k' =
     createTemplateSpan r (createNode (ts_TemplateLiteralLike k' c w))"
  by (simp add: setLiteralKind_def createNode_def)

lemma templateSpans_nth:
  "i < length rs \<Longrightarrow> i < length parts \<Longrightarrow>
   templateSpans rs parts ! i =
     createTemplateSpan (rs ! i)
       (createNode (ts_TemplateLiteralLike TemplateMiddle (cooked (parts ! i)) (raw (parts ! i))))"
  by (simp add: templateSpans_def)

lemma length_templateSpans: "length (templateSpans rs parts) = min (length rs) (length parts)"
  by (simp add: templateSpans_def)

lemma retag_last_span:
  assumes "length rs = n" and "length messageParts = n + 1" and "1 \<le> n"
  shows "(templateSpans rs (drop 1 messageParts))
           [n - 1 := setLiteralKind (templateSpans rs (drop 1 messageParts) ! (n - 1)) TemplateTail]
       = map (\<lambda>i. createTemplateSpan (rs ! i)
               (createNode (ts_TemplateLiteralLike
                  (if i = n - 1 then TemplateTail else TemplateMiddle)
                  (cooked (messageParts ! (i + 1))) (raw (messageParts ! (i + 1))))))
           [0..<n]"
proof (rule nth_equalityI)
  show "length ((templateSpans rs (drop 1 messageParts))
           [n - 1 := setLiteralKind (templateSpans rs (drop 1 messageParts) ! (n - 1)) TemplateTail])
      = length (map (\<lambda>i. createTemplateSpan (rs ! i)
               (createNode (ts_TemplateLiteralLike
                  (if i = n - 1 then TemplateTail else TemplateMiddle)
                  (cooked (messageParts ! (i + 1))) (raw (messageParts ! (i + 1))))))
           [0..<n])"
    using assms by (simp add: length_templateSpans)
next
  fix i
  assume "i < length ((templateSpans rs (drop 1 messageParts))
           [n - 1 := setLiteralKind (templateSpans rs (drop 1 messageParts) ! (n - 1)) TemplateTail])"
  with assms have i: "i < n" by (simp add: length_templateSpans)
  with assms show "(templateSpans rs (drop 1 messageParts))
           [n - 1 := setLiteralKind (templateSpans rs (drop 1 messageParts) ! (n - 1)) TemplateTail] ! i
      = map (\<lambda>i. createTemplateSpan (rs ! i)
               (createNode (ts_TemplateLiteralLike
                  (if i = n - 1 then TemplateTail else TemplateMiddle)
                  (cooked (messageParts ! (i + 1))) (raw (messageParts ! (i + 1))))))
           [0..<n] ! i"
    by (cases "i = n - 1")
      (simp_all add: length_templateSpans templateSpans_nth nth_list_update)
qed

text \<open>
  The helper where every message part after the first has a raw text that is its cooked
  text. With a single message part the result is the tagged template of \<^verbatim>\<open>$localize\<close>
  and a no-substitution template of that part (the expressions are not looked at). With
  \<open>N + 1\<close> message parts and \<open>N \<ge> 1\<close> expressions the expressions are visited from left
  to right and, when all visits return, the result is the tagged template of
  \<^verbatim>\<open>$localize\<close> and a template expression with the head of part 0 and \<open>N\<close> spans; span
  \<open>i\<close> pairs the translation of expression \<open>i\<close> with message part \<open>i + 1\<close>, as a tail
  for the last span and as a middle for every earlier one. When a visit throws, so does the
  helper.
\<close>

lemma visitLocalizedString_template:
  "visitLocalizedString [part] expressions context this =
     (Inr (createTaggedTemplate (createIdentifier ''$localize'')
             (createNoSubstitutionTemplateLiteral (cooked part) (raw part))), this)
   \<and> (1 \<le> length expressions \<and> length messageParts = length expressions + 1
        \<and> (\<forall>j. 1 \<le> j \<and> j < length messageParts \<longrightarrow>
               raw (messageParts ! j) = cooked (messageParts ! j)) \<longrightarrow>
       visitLocalizedString messageParts expressions context this =
         andThen (visitAll (map (\<lambda>e. e context) expressions))
           (\<lambda>rs. succeed (createTaggedTemplate (createIdentifier ''$localize'')
              (createTemplateExpression
                 (createTemplateHead (cooked (messageParts ! 0)) (raw (messageParts ! 0)))
                 (map (\<lambda>i. createTemplateSpan (rs ! i)
                         (createNode (ts_TemplateLiteralLike
                            (if i = length expressions - 1 then TemplateTail else TemplateMiddle)
                            (cooked (messageParts ! (i + 1))) (raw (messageParts ! (i + 1))))))
                    [0..<length expressions])))) this)"
proof (intro conjI impI)
  show "visitLocalizedString [part] expressions context this =
     (Inr (createTaggedTemplate (createIdentifier ''$localize'')
             (createNoSubstitutionTemplateLiteral (cooked part) (raw part))), this)"
    by (simp add: visitLocalizedString_def serializeI18nHead_def succeed_def)
next
  assume a: "1 \<le> length expressions \<and> length messageParts = length expressions + 1
        \<and> (\<forall>j. 1 \<le> j \<and> j < length messageParts \<longrightarrow>
               raw (messageParts ! j) = cooked (messageParts ! j))"
  then obtain p ps where parts: "messageParts = p # ps" by (cases messageParts) auto
  from a have len: "length expressions + 1 = length messageParts"
    and ne: "length messageParts \<noteq> 1" by auto
  have hd: "serializeI18nHead messageParts = succeed (messageParts ! 0)"
    by (simp add: serializeI18nHead_def parts)
  have loop: "visitLocalizedString_loop messageParts expressions context 1 [] =
      andThen (visitAll (map (\<lambda>e. e context) expressions))
        (\<lambda>rs. succeed (templateSpans rs (drop 1 messageParts)))"
    using visitLocalizedString_loop_eq [OF len, of 1 "context" "[]"] a by (intro ext) simp
  have "visitLocalizedString messageParts expressions context this =
      andThen (visitAll (map (\<lambda>e. e context) expressions))
        (\<lambda>rs. succeed (createTaggedTemplate (createIdentifier ''$localize'')
           (createTemplateExpression
              (createTemplateHead (cooked (messageParts ! 0)) (raw (messageParts ! 0)))
              (if length (templateSpans rs (drop 1 messageParts)) > 0
               then (templateSpans rs (drop 1 messageParts))
                      [length (templateSpans rs (drop 1 messageParts)) - 1 :=
                         setLiteralKind (templateSpans rs (drop 1 messageParts) !
                           (length (templateSpans rs (drop 1 messageParts)) - 1)) TemplateTail]
               else templateSpans rs (drop 1 messageParts))))) this"
    using ne
    by (simp add: visitLocalizedString_def hd loop andThen_assoc Let_def del: One_nat_def)
  also have "\<dots> = andThen (visitAll (map (\<lambda>e. e context) expressions))
           (\<lambda>rs. succeed (createTaggedTemplate (createIdentifier ''$localize'')
              (createTemplateExpression
                 (createTemplateHead (cooked (messageParts ! 0)) (raw (messageParts ! 0)))
                 (map (\<lambda>i. createTemplateSpan (rs ! i)
                         (createNode (ts_TemplateLiteralLike
                            (if i = length expressions - 1 then TemplateTail else TemplateMiddle)
                            (cooked (messageParts ! (i + 1))) (raw (messageParts ! (i + 1))))))
                    [0..<length expressions])))) this"
  proof (rule andThen_cong_result)
    fix rs this'
    assume "visitAll (map (\<lambda>e. e context) expressions) this = (Inr rs, this')"
    then have l: "length rs = length expressions" by (auto dest: visitAll_length)
    from a l have lt: "length (templateSpans rs (drop 1 messageParts)) = length expressions"
      by (simp add: length_templateSpans)
    from a have n1: "1 \<le> length expressions" and n2: "length messageParts = length expressions + 1"
      by auto
    show "succeed (createTaggedTemplate (createIdentifier ''$localize'')
           (createTemplateExpression
              (createTemplateHead (cooked (messageParts ! 0)) (raw (messageParts ! 0)))
              (if length (templateSpans rs (drop 1 messageParts)) > 0
               then (templateSpans rs (drop 1 messageParts))
                      [length (templateSpans rs (drop 1 messageParts)) - 1 :=
                         setLiteralKind (templateSpans rs (drop 1 messageParts) !
                           (length (templateSpans rs (drop 1 messageParts)) - 1)) TemplateTail]
               else templateSpans rs (drop 1 messageParts)))) this'
       = succeed (createTaggedTemplate (createIdentifier ''$localize'')
              (createTemplateExpression
                 (createTemplateHead (cooked (messageParts ! 0)) (raw (messageParts ! 0)))
                 (map (\<lambda>i. createTemplateSpan (rs ! i)
                         (createNode (ts_TemplateLiteralLike
                            (if i = length expressions - 1 then TemplateTail else TemplateMiddle)
                            (cooked (messageParts ! (i + 1))) (raw (messageParts ! (i + 1))))))
                    [0..<length expressions]))) this'"
    proof -
      from n1 have "expressions \<noteq> []" by auto
      with retag_last_span [OF l n2 n1] show ?thesis
        unfolding lt by (simp del: One_nat_def)
    qed
  qed
  finally show "visitLocalizedString messageParts expressions context this =
         andThen (visitAll (map (\<lambda>e. e context) expressions))
           (\<lambda>rs. succeed (createTaggedTemplate (createIdentifier ''$localize'')
              (createTemplateExpression
                 (createTemplateHead (cooked (messageParts ! 0)) (raw (messageParts ! 0)))
                 (map (\<lambda>i. createTemplateSpan (rs ! i)
                         (createNode (ts_TemplateLiteralLike
                            (if i = length expressions - 1 then TemplateTail else TemplateMiddle)
                            (cooked (messageParts ! (i + 1))) (raw (messageParts ! (i + 1))))))
                    [0..<length expressions])))) this" .
qed

lemma visitLocalizedString_template_example:
  "visitLocalizedString
     [\<lparr>cooked = ''a'', raw = ''a''\<rparr>, \<lparr>cooked = ''b'', raw = ''b''\<rparr>, \<lparr>cooked = ''c'', raw = ''c''\<rparr>]
     [visitExpression (ReadVarExpr (Some ''x'') None), visitExpression (ReadVarExpr (Some ''y'') None)]
     (Context False)
     (newExpressionTranslatorVisitor (newImportManager NoopImportRewriter ''i'') [] ES2015)
   = (Inr (createTaggedTemplate (createIdentifier ''$localize'')
        (createTemplateExpression (createTemplateHead ''a'' ''a'')
           [createTemplateSpan (createIdentifier ''x'') (createNode (ts_TemplateLiteralLike TemplateMiddle ''b'' ''b'')),
            createTemplateSpan (createIdentifier ''y'')
              (createNode (ts_TemplateLiteralLike TemplateTail ''c'' ''c''))])),
      newExpressionTranslatorVisitor (newImportManager NoopImportRewriter ''i'') [] ES2015)"
proof -
  let ?parts = "[\<lparr>cooked = ''a'', raw = ''a''\<rparr>, \<lparr>cooked = ''b'', raw = ''b''\<rparr>,
        \<lparr>cooked = ''c'', raw = ''c''\<rparr>]"
  have "1 \<le> length [visitExpression (ReadVarExpr (Some ''x'') None),
        visitExpression (ReadVarExpr (Some ''y'') None)]
      \<and> length ?parts = length [visitExpression (ReadVarExpr (Some ''x'') None),
        visitExpression (ReadVarExpr (Some ''y'') None)] + 1
      \<and> (\<forall>j. 1 \<le> j \<and> j < length ?parts \<longrightarrow> raw (?parts ! j) = cooked (?parts ! j))"
    by (auto simp: nth_Cons' less_Suc_eq)
  from visitLocalizedString_template [THEN conjunct2, rule_format, OF this, of "Context False"
      "newExpressionTranslatorVisitor (newImportManager NoopImportRewriter ''i'') [] ES2015"]
  show ?thesis
    by (simp add: visitReadVarExpr_def succeed_def upt_rec)
qed

lemma visitLocalizedString_loop_invalid_raw:
  assumes j: "j < length messageParts"
    and other: "raw (messageParts ! j) \<noteq> cooked (messageParts ! j)"
  shows "i \<le> j \<Longrightarrow>
    visitLocalizedString_loop messageParts expressions context i spans this \<noteq> (Inr result, this')"
proof (induction "j - i" arbitrary: i spans this)
  case 0
  then have ij: "i = j" by simp
  show ?case
  proof (cases "i - 1 < length expressions")
    case False
    with j ij show ?thesis by (subst visitLocalizedString_loop.simps) simp
  next
    case True
    with j other ij show ?thesis
      by (subst visitLocalizedString_loop.simps)
        (simp add: serializeI18nTemplatePart_def succeed_def createTemplateMiddle_def throw_def
          split: prod.splits sum.splits)
  qed
next
  case (Suc n)
  then have i: "i < length messageParts" "i + 1 \<le> j" "n = j - (i + 1)" using j by auto
  show ?case
  proof (cases "i - 1 < length expressions")
    case False
    with i show ?thesis by (subst visitLocalizedString_loop.simps) simp
  next
    case True
    with i(1) Suc.hyps(1) [OF i(3) i(2)] show ?thesis
      by (subst visitLocalizedString_loop.simps)
        (simp add: serializeI18nTemplatePart_def succeed_def createTemplateMiddle_def throw_def
          split: prod.splits sum.splits)
  qed
qed

lemma visitLocalizedString_invalid_raw:
  assumes "1 \<le> j" and "j < length messageParts"
    and "raw (messageParts ! j) \<noteq> cooked (messageParts ! j)"
  shows "visitLocalizedString messageParts expressions context this \<noteq> (Inr node, this')"
proof
  assume r: "visitLocalizedString messageParts expressions context this = (Inr node, this')"
  from assms have ne: "length messageParts \<noteq> 1" by simp
  from r ne obtain metaBlock this1 spans this2
    where "visitLocalizedString_loop messageParts expressions context 1 [] this1 = (Inr spans, this2)"
    unfolding visitLocalizedString_def Let_def
    by (auto dest!: andThen_result_Inr split: if_splits)
  with visitLocalizedString_loop_invalid_raw [OF assms(2,3) assms(1)] show False by blast
qed

text \<open>
  Claim C5: for \<open>N + 1\<close> message parts and \<open>N \<ge> 1\<close> expressions the helper builds the
  tagged template of \<^verbatim>\<open>$localize\<close> with one head and \<open>N\<close> spans, the last with a tail.
  It does so when the raw text of every part after the first is the part's cooked text
  (\<open>visitLocalizedString_template\<close>). When one of these raw texts differs from its cooked
  text, as it does for a part that holds a backtick, which the serializer escapes, the helper
  builds nothing (\<open>visitLocalizedString_invalid_raw\<close>): the message parts \<^verbatim>\<open>a\<close> and
  \<^verbatim>\<open>b`c\<close> around the expression \<^verbatim>\<open>x\<close> end in the factory's
  \<^verbatim>\<open>Debug Failure. Invalid raw text\<close>.
\<close>

theorem visitLocalizedString_backtick_part_throws:
  "fst (translateExpression
     (LocalizedString
        [\<lparr>cooked = ''a'', raw = ''a''\<rparr>,
         \<lparr>cooked = ''b`c'', raw = [CHR ''b'', CHR 0x5C, CHR 0x60, CHR ''c'']\<rparr>]
        [ReadVarExpr (Some ''x'') None] None)
     (newImportManager NoopImportRewriter ''i'') [] ES2015)
   = Inl (Error ''Debug Failure. Invalid raw text'')"
  apply (simp add: translateExpression_def newExpressionTranslatorVisitor_def
      ExpressionTranslatorVisitor_visitLocalizedString_def visitLocalizedString_def
      serializeI18nHead_def andThen_def)
  apply (subst visitLocalizedString_loop.simps)
  apply (simp add: visitReadVarExpr_def succeed_def serializeI18nTemplatePart_def
      createTemplateMiddle_def throw_def)
  done

subsection \<open>Binary operators\<close>

lemma jsmap_has_get: "jsmap_has m k = (jsmap_get m k \<noteq> None)"
  by (simp add: jsmap_has_def jsmap_get_def map_of_eq_None_iff)

lemma BINARY_OPERATORS_has:
  "jsmap_has BINARY_OPERATORS operator = (\<forall>n. operator \<noteq> OtherOperator n)"
  by (cases operator) (simp_all add: BINARY_OPERATORS_def jsmap_has_def)

text \<open>
  Claim C7. The visit of a binary operator whose tag the table \<open>BINARY_OPERATORS\<close> does
  not hold throws the error that names the operator, before anything is visited and with
  no output node. For a tag the table maps to a token, the visit translates the two
  operands from left to right and returns the binary expression of the two translations
  with that token.
\<close>

theorem visitBinaryOperatorExpr_table:
  "(\<not> jsmap_has BINARY_OPERATORS operator \<longrightarrow>
      visitExpression (BinaryOperatorExpr operator lhs rhs sourceSpan) context this
      = (Inl (Error (''Unknown binary operator: '' @ BinaryOperator_name operator)), this))
   \<and> (\<forall>token. jsmap_get BINARY_OPERATORS operator = Some token \<longrightarrow>
      visitExpression (BinaryOperatorExpr operator lhs rhs sourceSpan) context this
      = andThen (visitExpression lhs context) (\<lambda>l.
          andThen (visitExpression rhs context) (\<lambda>r.
            succeed (createBinary l token r))) this)"
  by (auto simp: visitBinaryOperatorExpr_def throw_def jsmap_has_get)

theorem visitBinaryOperatorExpr_table_witness:
  "fst (visitExpression
     (BinaryOperatorExpr (OtherOperator ''NullishCoalesce'') (ReadVarExpr (Some ''x'') None)
        (ReadVarExpr (Some ''y'') None) None)
     (Context False)
     (newExpressionTranslatorVisitor (newImportManager NoopImportRewriter ''i'') [] ES2015))
   = Inl (Error ''Unknown binary operator: NullishCoalesce'')
   \<and> fst (visitExpression
     (BinaryOperatorExpr Plus_op (ReadVarExpr (Some ''x'') None)
        (ReadVarExpr (Some ''y'') None) None)
     (Context False)
     (newExpressionTranslatorVisitor (newImportManager NoopImportRewriter ''i'') [] ES2015))
   = Inr (createBinary (createIdentifier ''x'') PlusToken (createIdentifier ''y''))"
  using visitBinaryOperatorExpr_table [of "OtherOperator ''NullishCoalesce''"
      "ReadVarExpr (Some ''x'') None" "ReadVarExpr (Some ''y'') None" None "Context False"
      "newExpressionTranslatorVisitor (newImportManager NoopImportRewriter ''i'') [] ES2015"]
    visitBinaryOperatorExpr_table [of Plus_op
      "ReadVarExpr (Some ''x'') None" "ReadVarExpr (Some ''y'') None" None "Context False"
      "newExpressionTranslatorVisitor (newImportManager NoopImportRewriter ''i'') [] ES2015"]
  by (simp add: BINARY_OPERATORS_def jsmap_has_def jsmap_get_def visitReadVarExpr_def
      succeed_def)

subsection \<open>Source-map ranges\<close>

lemma keepsSourcesI:
  "(\<And>this u h. jsmap_get (externalSourceFiles this) u = Some h \<Longrightarrow>
      jsmap_get (externalSourceFiles (snd (m this))) u = Some h) \<Longrightarrow> keepsSources m"
  by (simp add: keepsSources_def)

lemma keepsSourcesD:
  "keepsSources m \<Longrightarrow> jsmap_get (externalSourceFiles this) u = Some h \<Longrightarrow>
     jsmap_get (externalSourceFiles (snd (m this))) u = Some h"
  by (simp add: keepsSources_def)

lemma keeps_succeed [intro!, simp]: "keepsSources (succeed x)"
  by (simp add: keepsSources_def succeed_def)

lemma keeps_throw [intro!, simp]: "keepsSources (throw e)"
  by (simp add: keepsSources_def throw_def)

lemma keeps_Pair [intro!, simp]: "keepsSources (Pair r)"
  by (simp add: keepsSources_def)

lemma keeps_andThen [intro!]:
  assumes "keepsSources m" and "\<And>x. keepsSources (f x)"
  shows "keepsSources (andThen m f)"
proof (rule keepsSourcesI)
  fix this :: ExpressionTranslatorVisitor and u h
  assume a: "jsmap_get (externalSourceFiles this) u = Some h"
  obtain r this1 where m: "m this = (r, this1)" by (cases "m this")
  from keepsSourcesD [OF assms(1) a] m
  have b: "jsmap_get (externalSourceFiles this1) u = Some h" by simp
  show "jsmap_get (externalSourceFiles (snd (andThen m f this))) u = Some h"
  proof (cases r)
    case (Inl e)
    with m b show ?thesis by (simp add: andThen_def)
  next
    case (Inr x)
    with m keepsSourcesD [OF assms(2) b, of x] show ?thesis by (simp add: andThen_def)
  qed
qed

lemma keeps_visitAll [intro!]:
  "(\<And>m. m \<in> set ms \<Longrightarrow> keepsSources m) \<Longrightarrow> keepsSources (visitAll ms)"
  by (induction ms) auto

lemma jsmap_get_set_other:
  "\<not> jsmap_has m k \<Longrightarrow> jsmap_get m u = Some h \<Longrightarrow> jsmap_get (jsmap_set m k v) u = Some h"
  by (auto simp: jsmap_has_def jsmap_get_def jsmap_set_def map_add_Some_iff
      dest: map_of_SomeD)

lemma keeps_setSourceMapRange [intro!, simp]: "keepsSources (setSourceMapRange expr sourceSpan)"
  by (rule keepsSourcesI)
    (auto simp: setSourceMapRange_def Let_def jsmap_get_set_other split: option.splits)

lemma keeps_loop:
  assumes "\<And>e. e \<in> set expressions \<Longrightarrow> keepsSources (e context)"
  shows "keepsSources (visitLocalizedString_loop messageParts expressions context i spans)"
proof (rule keepsSourcesI)
  fix this u h
  show "jsmap_get (externalSourceFiles this) u = Some h \<Longrightarrow>
    jsmap_get (externalSourceFiles
      (snd (visitLocalizedString_loop messageParts expressions context i spans this))) u = Some h"
  proof (induction "length messageParts - i" arbitrary: i spans this)
    case 0
    then show ?case
      by (subst visitLocalizedString_loop.simps) auto
  next
    case (Suc n)
    show ?case
    proof (cases "i < length messageParts \<and> i - 1 < length expressions")
      case False
      with Suc.prems show ?thesis
        by (subst visitLocalizedString_loop.simps) auto
    next
      case True
      then have mem: "expressions ! (i - 1) \<in> set expressions" by simp
      obtain r this1 where v: "(expressions ! (i - 1)) context this = (r, this1)"
        by (cases "(expressions ! (i - 1)) context this")
      from keepsSourcesD [OF assms [OF mem] Suc.prems] v
      have b: "jsmap_get (externalSourceFiles this1) u = Some h" by simp
      show ?thesis
      proof (cases r)
        case (Inl e)
        with True v b show ?thesis
          by (subst visitLocalizedString_loop.simps) simp
      next
        case (Inr x)
        have s: "serializeI18nTemplatePart messageParts i this1 = (Inr (messageParts ! i), this1)"
          using True by (simp add: serializeI18nTemplatePart_def succeed_def)
        have n: "n = length messageParts - (i + 1)" using Suc.hyps(2) by simp
        from True v Inr s b Suc.hyps(1) [OF n b]
        show ?thesis
          by (subst visitLocalizedString_loop.simps)
            (simp add: createTemplateMiddle_def succeed_def throw_def)
      qed
    qed
  qed
qed

lemma keeps_if [intro!]:
  "(c \<Longrightarrow> keepsSources a) \<Longrightarrow> (\<not> c \<Longrightarrow> keepsSources b) \<Longrightarrow> keepsSources (if c then a else b)"
  by simp

lemma keeps_visitDeclareVarStmt:
  "(\<And>v. value = Some v \<Longrightarrow> keepsSources (v (withExpressionMode context))) \<Longrightarrow>
   keepsSources (visitDeclareVarStmt name value modifiers context)"
proof (rule keepsSourcesI)
  fix this :: ExpressionTranslatorVisitor and u h
  assume v: "\<And>v. value = Some v \<Longrightarrow> keepsSources (v (withExpressionMode context))"
    and a: "jsmap_get (externalSourceFiles this) u = Some h"
  show "jsmap_get (externalSourceFiles (snd (visitDeclareVarStmt name value modifiers context this))) u
     = Some h"
  proof (cases "value")
    case None
    with a show ?thesis by (simp add: visitDeclareVarStmt_def succeed_def)
  next
    case (Some w)
    have "keepsSources (andThen (w (withExpressionMode context)) (\<lambda>initializer.
            succeed (createVariableStatement (createVariableDeclarationList
              [createVariableDeclaration name (Some initializer)]
              (if ScriptTarget_value (scriptTarget this) \<ge> ScriptTarget_value ES2015
                  \<and> Final \<in> set modifiers
               then NodeFlags_Const else NodeFlags_None)))))"
      using v [OF Some] by (intro keeps_andThen keeps_succeed)
    from keepsSourcesD [OF this a] Some show ?thesis
      by (simp add: visitDeclareVarStmt_def Let_def)
  qed
qed

lemma keeps_visitDeclareClassStmt [intro!, simp]:
  "keepsSources (visitDeclareClassStmt name context)"
  by (rule keepsSourcesI) (simp add: visitDeclareClassStmt_def throw_def)

lemma keeps_visitExternalExpr [intro!, simp]: "keepsSources (visitExternalExpr value context)"
  by (rule keepsSourcesI)
    (simp add: visitExternalExpr_def throw_def succeed_def split_beta Let_def
      split: ExternalReference.splits option.splits)

lemma keeps_visitWrappedNodeExpr [intro!, simp]:
  "keepsSources (visitWrappedNodeExpr node context)"
  by (rule keepsSourcesI) (simp add: visitWrappedNodeExpr_def)

lemma keeps_serializeI18nHead [intro!, simp]: "keepsSources (serializeI18nHead messageParts)"
  by (simp add: serializeI18nHead_def split: list.splits)

lemma keeps_visitLocalizedString:
  assumes "\<And>e. e \<in> set expressions \<Longrightarrow> keepsSources (e context)"
  shows "keepsSources (visitLocalizedString messageParts expressions context)"
  unfolding visitLocalizedString_def Let_def
  by (intro keeps_andThen keeps_serializeI18nHead keeps_if keeps_succeed keeps_loop assms)

lemma keeps_ETV_visitLocalizedString:
  assumes "\<And>e. e \<in> set expressions \<Longrightarrow> keepsSources (e context)"
  shows "keepsSources (ExpressionTranslatorVisitor_visitLocalizedString messageParts expressions
           context)"
proof (rule keepsSourcesI)
  fix this :: ExpressionTranslatorVisitor and u h
  assume a: "jsmap_get (externalSourceFiles this) u = Some h"
  have "keepsSources (visitLocalizedString messageParts expressions context)"
    using assms by (rule keeps_visitLocalizedString)
  from keepsSourcesD [OF this a] a
  show "jsmap_get (externalSourceFiles
      (snd (ExpressionTranslatorVisitor_visitLocalizedString messageParts expressions context this)))
      u = Some h"
    by (simp add: ExpressionTranslatorVisitor_visitLocalizedString_def throw_def)
qed

lemma keeps_visit:
  "\<forall>context. keepsSources (visitExpression e context)"
  "\<forall>context. keepsSources (visitEntry entry context)"
  "\<forall>context. keepsSources (visitStatement s context)"
proof (induction e and entry and s)
  case (LocalizedString messageParts expressions sourceSpan)
  then show ?case by (auto intro!: keeps_ETV_visitLocalizedString)
next
  case (DeclareVarStmt name "value" modifiers)
  then show ?case by (auto intro!: keeps_visitDeclareVarStmt)
next
  case (ConditionalExpr condition trueCase falseCase sourceSpan)
  then show ?case by (cases falseCase) (auto simp: visitConditionalExpr_def)
qed (auto simp: visitReadVarExpr_def visitWriteVarExpr_def visitWriteKeyExpr_def
    visitWritePropExpr_def visitInvokeMethodExpr_def visitInvokeFunctionExpr_def
    visitInstantiateExpr_def visitLiteralExpr_def visitNotExpr_def visitAssertNotNullExpr_def
    visitCastExpr_def visitFunctionExpr_def visitBinaryOperatorExpr_def visitReadPropExpr_def
    visitReadKeyExpr_def visitLiteralArrayExpr_def visitLiteralMapEntry_def
    visitLiteralMapExpr_def visitCommaExpr_def visitTypeofExpr_def visitDeclareFunctionStmt_def
    visitExpressionStmt_def visitReturnStmt_def visitIfStmt_def visitTryCatchStmt_def
    visitThrowStmt_def visitCommentStmt_def visitJSDocCommentStmt_def Let_def
    split: option.splits)

lemma jsmap_set_keys:
  "map fst (map (\<lambda>(k', v'). if k' = k then (k', v) else (k', v')) m) = map fst m"
  by (induction m) auto

lemma jsmap_has_set: "jsmap_has (jsmap_set m k v) k"
proof (cases "jsmap_has m k")
  case True
  then show ?thesis
    unfolding jsmap_has_def jsmap_set_def by (simp only: if_True jsmap_set_keys)
next
  case False
  then show ?thesis by (simp add: jsmap_has_def jsmap_set_def)
qed

lemma setSourceMapRange_result:
  assumes "setSourceMapRange expr sourceSpan this = (r, this')"
    and "sourceMapRange (emitNode expr) = None"
  shows "\<exists>node. r = Inr node \<and> sourceMapRange (emitNode node) = expectedRange sourceSpan this'
           \<and> hasSource sourceSpan this'"
  using assms
  by (auto simp: setSourceMapRange_def expectedRange_def hasSource_def Let_def
      ts_setSourceMapRange_def jsmap_has_set split: option.splits if_splits)

lemma sourceMapRange_createNode [simp]: "sourceMapRange (emitNode (createNode s)) = None"
  by (simp add: createNode_def)

lemma sourceMapRange_addComment [simp]:
  "sourceMapRange (emitNode (addSyntheticLeadingComment n k t b)) = sourceMapRange (emitNode n)"
  by (simp add: addSyntheticLeadingComment_def setSyntheticLeadingComments_def)

lemma sourceMapRange_createLiteral [simp]: "sourceMapRange (emitNode (createLiteral v)) = None"
  by (cases v) simp_all

text \<open>
  Claim C8, amended. The visits of a variable read, a method call, a function call, a
  literal, a literal array and a literal map annotate the node they return: when the IR
  node has a source span whose file has a URL, the node's source-map range holds the
  span's start offset, its end offset and the source handle that the visitor's cache holds
  for that URL (and the cache does hold one); when there is no span, or no URL, the node
  has no range. The cache never changes a handle it holds, over any visit of any
  expression, so all nodes annotated from one URL share one handle.
\<close>

theorem setSourceMapRange_annotates:
  assumes "visitExpression e context this = (r, this')"
  shows "(\<forall>u h. jsmap_get (externalSourceFiles this) u = Some h \<longrightarrow>
            jsmap_get (externalSourceFiles this') u = Some h)
       \<and> (setsSourceMapRange e \<longrightarrow>
            (\<forall>node. r = Inr node \<longrightarrow>
               sourceMapRange (emitNode node) = expectedRange (sourceSpanOf e) this'
               \<and> hasSource (sourceSpanOf e) this'))"
proof (intro conjI allI impI)
  fix u h
  assume "jsmap_get (externalSourceFiles this) u = Some h"
  from keepsSourcesD [OF keeps_visit(1) [rule_format, of e "context"] this] assms
  show "jsmap_get (externalSourceFiles this') u = Some h" by simp
next
  fix node
  assume s: "setsSourceMapRange e" and r: "r = Inr node"
  have "sourceMapRange (emitNode node) = expectedRange (sourceSpanOf e) this'
      \<and> hasSource (sourceSpanOf e) this'"
  proof (cases e)
    case (ReadVarExpr name sourceSpan)
    with assms r show ?thesis
      by (cases name) (auto simp: visitReadVarExpr_def throw_def dest!: setSourceMapRange_result)
  next
    case (InvokeMethodExpr receiver name args sourceSpan)
    with assms r show ?thesis
      by (auto simp: visitInvokeMethodExpr_def Let_def
          dest!: andThen_result_Inr setSourceMapRange_result)
  next
    case (InvokeFunctionExpr fn args pure sourceSpan)
    with assms r show ?thesis
      by (cases pure)
        (auto simp: visitInvokeFunctionExpr_def Let_def
          dest!: andThen_result_Inr setSourceMapRange_result)
  next
    case (LiteralExpr v sourceSpan)
    with assms r show ?thesis
      by (cases v) (auto simp: visitLiteralExpr_def dest!: setSourceMapRange_result)
  next
    case (LiteralArrayExpr entries sourceSpan)
    with assms r show ?thesis
      by (auto simp: visitLiteralArrayExpr_def dest!: andThen_result_Inr setSourceMapRange_result)
  next
    case (LiteralMapExpr entries sourceSpan)
    with assms r show ?thesis
      by (auto simp: visitLiteralMapExpr_def dest!: andThen_result_Inr setSourceMapRange_result)
  qed (use s in simp_all)
  then show "sourceMapRange (emitNode node) = expectedRange (sourceSpanOf e) this'"
    and "hasSource (sourceSpanOf e) this'" by simp_all
qed

theorem setSourceMapRange_annotates_witness:
  "fst (visitExpression
     (ReadVarExpr (Some ''x'')
        (Some \<lparr>start = \<lparr>location_file = \<lparr>content = ''x + 1'', url = ''a.ts''\<rparr>, offset = 0\<rparr>,
               span_end = \<lparr>location_file = \<lparr>content = ''x + 1'', url = ''a.ts''\<rparr>, offset = 1\<rparr>\<rparr>))
     (Context False)
     (newExpressionTranslatorVisitor (newImportManager NoopImportRewriter ''i'') [] ES2015))
   = Inr (ts_setSourceMapRange (createIdentifier ''x'')
       \<lparr>pos = 0, range_end = 1,
        source = Some \<lparr>fileName = ''a.ts'', source_text = ''x + 1''\<rparr>\<rparr>)"
  using setSourceMapRange_annotates [of
     "ReadVarExpr (Some ''x'')
        (Some \<lparr>start = \<lparr>location_file = \<lparr>content = ''x + 1'', url = ''a.ts''\<rparr>, offset = 0\<rparr>,
               span_end = \<lparr>location_file = \<lparr>content = ''x + 1'', url = ''a.ts''\<rparr>, offset = 1\<rparr>\<rparr>)"
     "Context False"
     "newExpressionTranslatorVisitor (newImportManager NoopImportRewriter ''i'') [] ES2015",
     OF surjective_pairing]
  by (simp add: visitReadVarExpr_def setSourceMapRange_def jsmap_has_def jsmap_get_def
      jsmap_set_def createSourceMapSource_def newExpressionTranslatorVisitor_def Let_def)

text \<open>
  The claim as stated fails for the other visits, which never annotate: a conditional with
  a source span is translated to a node without a source-map range.
\<close>

theorem setSourceMapRange_annotates_counterexample:
  "fst (translateExpression
     (ConditionalExpr (ReadVarExpr (Some ''c'') None) (ReadVarExpr (Some ''t'') None)
        (Some (ReadVarExpr (Some ''f'') None))
        (Some \<lparr>start = \<lparr>location_file = \<lparr>content = ''c ? t : f'', url = ''a.ts''\<rparr>, offset = 0\<rparr>,
               span_end = \<lparr>location_file = \<lparr>content = ''c ? t : f'', url = ''a.ts''\<rparr>,
                            offset = 9\<rparr>\<rparr>))
     (newImportManager NoopImportRewriter ''i'') [] ES2015)
   = Inr (createConditional (createIdentifier ''c'') (createIdentifier ''t'')
            (createIdentifier ''f''))
   \<and> sourceMapRange (emitNode (createConditional (createIdentifier ''c'') (createIdentifier ''t'')
            (createIdentifier ''f''))) = None"
  by (simp add: translateExpression_def visitConditionalExpr_def visitReadVarExpr_def succeed_def)

subsection \<open>Conditionals\<close>

text \<open>
  Claim C10, amended. The visit of a conditional without a false case never returns an
  output node. When the visits of the condition and of the true case return, it fails with
  the \<^verbatim>\<open>TypeError\<close> of calling a method on \<^verbatim>\<open>null\<close>; when one of them throws, that
  error is the one raised.
\<close>

theorem visitConditionalExpr_null_falseCase:
  "(\<forall>c this1 t this2.
      visitExpression condition context this = (Inr c, this1)
      \<and> visitExpression trueCase context this1 = (Inr t, this2) \<longrightarrow>
      visitExpression (ConditionalExpr condition trueCase None sourceSpan) context this
      = (Inl TypeError, this2))
   \<and> (\<forall>node this'.
      visitExpression (ConditionalExpr condition trueCase None sourceSpan) context this
      \<noteq> (Inr node, this'))
   \<and> visitExpression (ConditionalExpr condition trueCase None sourceSpan) context this
      = andThen (visitExpression condition context) (\<lambda>c.
          andThen (visitExpression trueCase context) (\<lambda>t. throw TypeError)) this"
  by (auto simp: visitConditionalExpr_def andThen_def throw_def split: prod.splits sum.splits)

theorem visitConditionalExpr_null_falseCase_witness:
  "visitExpression
     (ConditionalExpr (ReadVarExpr (Some ''c'') None) (ReadVarExpr (Some ''t'') None) None None)
     (Context False)
     (newExpressionTranslatorVisitor (newImportManager NoopImportRewriter ''i'') [] ES2015)
   = (Inl TypeError,
      newExpressionTranslatorVisitor (newImportManager NoopImportRewriter ''i'') [] ES2015)"
  using visitConditionalExpr_null_falseCase [of "ReadVarExpr (Some ''c'') None" "Context False"
      "newExpressionTranslatorVisitor (newImportManager NoopImportRewriter ''i'') [] ES2015"
      "ReadVarExpr (Some ''t'') None" None]
  by (simp add: visitReadVarExpr_def succeed_def)

text \<open>
  The claim as stated fails when one of these two visits throws first: with a comma
  expression as the condition the error is \<^verbatim>\<open>Method not implemented.\<close>
\<close>

theorem visitConditionalExpr_null_falseCase_counterexample:
  "fst (translateExpression
     (ConditionalExpr (CommaExpr [] None) (ReadVarExpr (Some ''x'') None) None None)
     (newImportManager NoopImportRewriter ''i'') [] ES2015)
   = Inl (Error ''Method not implemented.'')"
  by (simp add: translateExpression_def visitConditionalExpr_def visitCommaExpr_def throw_def)

end
